(* ===== verification/Prelude.thy ===== *)
theory Prelude
  imports Complex_Main
begin

text \<open>
  Shared vocabulary of the development: the names of the model's basic types, the
  JavaScript promise with its settle-once semantics (used by the frame capture of
  \<^verbatim>\<open>src/utils/videoUtils.ts\<close> and by the asynchronous handlers of
  \<^verbatim>\<open>src/components/UploadModal.tsx\<close>), removal of one pending task from a list of
  outstanding asynchronous continuations, and the collections of facts the component
  theories feed their handlers into.
\<close>

named_theorems handler_defs
  "definitions of event handlers, unfolded when a step is evaluated"
named_theorems js_simps
  "evaluation rules for the modelled JavaScript built-ins"

type_synonym js_string = string
  \<comment> \<open>a JavaScript string; characters are modelled as Isabelle's 8-bit \<open>char\<close>\<close>
type_synonym url = js_string
  \<comment> \<open>a URL as the program stores it: a \<^verbatim>\<open>blob:\<close>, \<^verbatim>\<open>data:\<close> or \<^verbatim>\<open>https:\<close> string\<close>
type_synonym seconds = rat
  \<comment> \<open>a media time as JavaScript reads \<^verbatim>\<open>currentTime\<close>; only decimals occur\<close>

section \<open>JavaScript promises\<close>

text \<open>
  A promise is pending until the first call of its \<open>resolve\<close> or \<open>reject\<close> callback;
  every later call is ignored (ECMAScript, Promise Resolve Functions, step
  \<open>alreadyResolved\<close>).
\<close>

datatype ('e, 'a) promise = Pending | Resolved 'a | Rejected 'e

definition js_resolve :: "('e, 'a) promise \<Rightarrow> 'a \<Rightarrow> ('e, 'a) promise" where
  "js_resolve p v = (case p of Pending \<Rightarrow> Resolved v | _ \<Rightarrow> p)"

definition js_reject :: "('e, 'a) promise \<Rightarrow> 'e \<Rightarrow> ('e, 'a) promise" where
  "js_reject p e = (case p of Pending \<Rightarrow> Rejected e | _ \<Rightarrow> p)"

fun settled :: "('e, 'a) promise \<Rightarrow> bool" where
  "settled Pending = False"
| "settled _ = True"

fun is_resolved :: "('e, 'a) promise \<Rightarrow> bool" where
  "is_resolved (Resolved _) = True"
| "is_resolved _ = False"

text \<open>
  The asynchronous continuations of a component that have been started and not yet
  run form a list; the event loop may run any of them next. Running the \<open>i\<close>-th
  removes it.
\<close>

definition remove_nth :: "nat \<Rightarrow> 'a list \<Rightarrow> 'a list" where
  "remove_nth i xs = take i xs @ drop (Suc i) xs"

section \<open>Lemmas on promises\<close>

lemma js_resolve_Pending [simp]: "js_resolve Pending v = Resolved v"
  by (simp add: js_resolve_def)

lemma js_reject_Pending [simp]: "js_reject Pending e = Rejected e"
  by (simp add: js_reject_def)

lemma js_resolve_settled [simp]: "settled p \<Longrightarrow> js_resolve p v = p"
  by (cases p) (simp_all add: js_resolve_def)

lemma js_reject_settled [simp]: "settled p \<Longrightarrow> js_reject p e = p"
  by (cases p) (simp_all add: js_reject_def)

lemma settled_js_resolve [simp]: "settled (js_resolve p v)"
  by (cases p) (simp_all add: js_resolve_def)

lemma settled_js_reject [simp]: "settled (js_reject p e)"
  by (cases p) (simp_all add: js_reject_def)

lemma is_resolved_js_resolve [simp]:
  "is_resolved (js_resolve p v) = (p = Pending \<or> is_resolved p)"
  by (cases p) (simp_all add: js_resolve_def)

lemma is_resolved_js_reject [simp]: "is_resolved (js_reject p e) = is_resolved p"
  by (cases p) (simp_all add: js_reject_def)

lemma is_resolved_settled: "is_resolved p \<Longrightarrow> settled p"
  by (cases p) simp_all

lemma not_settled_iff [simp]: "(\<not> settled p) = (p = Pending)"
  by (cases p) simp_all

section \<open>Lemmas on outstanding continuations\<close>

lemma set_remove_nth_subset: "set (remove_nth i xs) \<subseteq> set xs"
  by (auto simp: remove_nth_def dest: in_set_takeD in_set_dropD)

lemma in_set_remove_nth: "x \<in> set (remove_nth i xs) \<Longrightarrow> x \<in> set xs"
  using set_remove_nth_subset by fast

lemma length_remove_nth [simp]: "i < length xs \<Longrightarrow> length (remove_nth i xs) = length xs - 1"
  by (simp add: remove_nth_def)

lemma remove_nth_Cons_0 [simp]: "remove_nth 0 (x # xs) = xs"
  by (simp add: remove_nth_def)

lemma remove_nth_append_length [simp]: "remove_nth (length xs) (xs @ [x]) = xs"
  by (simp add: remove_nth_def)

lemma in_set_remove_nth_other: "x \<in> set xs \<Longrightarrow> xs ! i \<noteq> x \<Longrightarrow> x \<in> set (remove_nth i xs)"
proof -
  assume x: "x \<in> set xs" and ne: "xs ! i \<noteq> x"
  then obtain j where j: "j < length xs" "xs ! j = x" by (auto simp: in_set_conv_nth)
  with ne have "j \<noteq> i" by auto
  show ?thesis
  proof (cases "j < i")
    case True
    with j have "x \<in> set (take i xs)" by (auto simp: in_set_conv_nth)
    then show ?thesis by (simp add: remove_nth_def)
  next
    case False
    with \<open>j \<noteq> i\<close> j have "xs ! j = drop (Suc i) xs ! (j - Suc i)" "j - Suc i < length (drop (Suc i) xs)"
      by auto
    with j have "x \<in> set (drop (Suc i) xs)" by (metis nth_mem)
    then show ?thesis by (simp add: remove_nth_def)
  qed
qed

end
