(* ===== verification/Js_String.thy ===== *)
theory Js_String
  imports Prelude
begin

text \<open>
  The JavaScript string and array built-ins the program calls, as the ECMAScript
  specification defines them on the inputs the program gives them:
  \<^verbatim>\<open>String.prototype.split\<close> with a one-character separator, array indexing
  (an index past the end reads \<^verbatim>\<open>undefined\<close>, modelled as \<open>None\<close>),
  \<^verbatim>\<open>String.prototype.trim\<close>, \<^verbatim>\<open>Array.prototype.join\<close> and the truthiness of a
  string. A character is a UTF-16 code unit below 256 (Isabelle's \<open>char\<close>); the
  white space that \<^verbatim>\<open>trim\<close> removes is the part of ECMAScript's WhiteSpace and
  LineTerminator sets in that range. The lemmas are the split/join round trip and
  the facts about \<open>trim\<close> that the tag parser of the upload form needs.
\<close>

section \<open>Definitions\<close>

fun js_split :: "char \<Rightarrow> js_string \<Rightarrow> js_string list" where
  "js_split c [] = [[]]"
| "js_split c (x # xs) =
     (let r = js_split c xs in if x = c then [] # r else (x # hd r) # tl r)"

fun js_index :: "'a list \<Rightarrow> nat \<Rightarrow> 'a option" where
  "js_index [] i = None"
| "js_index (x # xs) 0 = Some x"
| "js_index (x # xs) (Suc i) = js_index xs i"

definition is_js_space :: "char \<Rightarrow> bool" where
  "is_js_space c \<longleftrightarrow> of_char c \<in> {9, 10, 11, 12, 13, 32, 160 :: nat}"

definition js_trim :: "js_string \<Rightarrow> js_string" where
  "js_trim s = rev (dropWhile is_js_space (rev (dropWhile is_js_space s)))"

fun js_join :: "js_string \<Rightarrow> js_string list \<Rightarrow> js_string" where
  "js_join sep [] = []"
| "js_join sep [x] = x"
| "js_join sep (x # y # zs) = x @ sep @ js_join sep (y # zs)"

definition js_truthy :: "js_string \<Rightarrow> bool" where
  "js_truthy s \<longleftrightarrow> s \<noteq> []"

definition js_or :: "js_string \<Rightarrow> js_string \<Rightarrow> js_string" where
  "js_or a b = (if js_truthy a then a else b)"

text \<open>\<^verbatim>\<open>Number.prototype.toString()\<close> on a natural number: its decimal digits.\<close>

fun js_nat_string :: "nat \<Rightarrow> js_string" where
  "js_nat_string n =
     (if n < 10 then [''0123456789'' ! n]
      else js_nat_string (n div 10) @ [''0123456789'' ! (n mod 10)])"

text \<open>Reading decimal digits back, the inverse of \<open>js_nat_string\<close>.\<close>

definition decimal_value :: "js_string \<Rightarrow> nat" where
  "decimal_value s = foldl (\<lambda>acc c. 10 * acc + (of_char c - 48)) 0 s"

text \<open>A string \<^verbatim>\<open>trim\<close> leaves unchanged.\<close>

definition trimmed :: "js_string \<Rightarrow> bool" where
  "trimmed s \<longleftrightarrow> s = [] \<or> (\<not> is_js_space (hd s) \<and> \<not> is_js_space (last s))"

declare js_nat_string.simps [simp del]

declare js_trim_def [js_simps] js_truthy_def [js_simps] js_or_def [js_simps]
  is_js_space_def [js_simps]

section \<open>Split and join\<close>

lemma js_split_not_Nil [simp]: "js_split c s \<noteq> []"
  by (induction s) (simp_all add: Let_def)

lemma js_split_no_sep [simp]: "c \<notin> set w \<Longrightarrow> js_split c w = [w]"
  by (induction w) (auto simp: Let_def)

lemma js_split_append_sep:
  "c \<notin> set w \<Longrightarrow> js_split c (w @ c # r) = w # js_split c r"
proof (induction w)
  case Nil
  then show ?case by simp
next
  case (Cons x w)
  then have "x \<noteq> c" and "js_split c (w @ c # r) = w # js_split c r" by auto
  then show ?case by (simp add: Let_def)
qed

lemma js_split_parts_no_sep: "w \<in> set (js_split c s) \<Longrightarrow> c \<notin> set w"
proof (induction s arbitrary: w)
  case Nil
  then show ?case by simp
next
  case (Cons x xs)
  obtain h t where r: "js_split c xs = h # t"
    using js_split_not_Nil by (cases "js_split c xs") auto
  with Cons.IH have "\<forall>v \<in> set (h # t). c \<notin> set v" by auto
  with r Cons.prems show ?case by (auto simp: Let_def split: if_splits)
qed

lemma length_js_split: "length (js_split c s) = Suc (count_list s c)"
proof (induction s)
  case Nil
  then show ?case by simp
next
  case (Cons x xs)
  obtain h t where "js_split c xs = h # t"
    using js_split_not_Nil by (cases "js_split c xs") auto
  with Cons.IH show ?case by (simp add: Let_def)
qed

text \<open>The first part of a split, and the split of what follows the first separator.\<close>

lemma js_split_first:
  "js_split c s = takeWhile (\<lambda>x. x \<noteq> c) s #
     (if c \<in> set s then js_split c (tl (dropWhile (\<lambda>x. x \<noteq> c) s)) else [])"
  by (induction s) (auto simp: Let_def)

lemma js_join_Cons: "ws \<noteq> [] \<Longrightarrow> js_join sep (w # ws) = w @ sep @ js_join sep ws"
  by (cases ws) simp_all

text \<open>Joining the parts of a split with the separator gives the string back.\<close>

lemma js_join_js_split: "js_join [c] (js_split c s) = s"
proof (induction s)
  case Nil
  then show ?case by simp
next
  case (Cons x xs)
  obtain h t where r: "js_split c xs = h # t"
    using js_split_not_Nil by (cases "js_split c xs") auto
  show ?case
  proof (cases "x = c")
    case True
    with Cons.IH r show ?thesis by (simp add: js_join_Cons)
  next
    case False
    with Cons.IH r show ?thesis by (cases t) simp_all
  qed
qed

text \<open>Splitting a join whose parts avoid the separator character gives the parts back.\<close>

lemma js_split_js_join:
  "ws \<noteq> [] \<Longrightarrow> \<forall>w \<in> set ws. c \<notin> set w \<Longrightarrow> js_split c (js_join [c] ws) = ws"
proof (induction ws)
  case Nil
  then show ?case by simp
next
  case (Cons w ws)
  show ?case
  proof (cases ws)
    case Nil
    with Cons.prems show ?thesis by simp
  next
    case (Cons v vs)
    with Cons.prems Cons.IH show ?thesis
      by (simp add: js_split_append_sep del: js_join.simps(3)
               add: js_join_Cons)
  qed
qed

section \<open>Indexing\<close>

lemma js_index_Some: "i < length xs \<Longrightarrow> js_index xs i = Some (xs ! i)"
  by (induction xs i rule: js_index.induct) simp_all

lemma js_index_None: "length xs \<le> i \<Longrightarrow> js_index xs i = None"
  by (induction xs i rule: js_index.induct) simp_all

lemma js_index_append_length [simp]: "js_index (xs @ [x]) (length xs) = Some x"
  by (simp add: js_index_Some)

lemma js_index_Some_nth: "js_index xs i = Some x \<Longrightarrow> i < length xs \<and> xs ! i = x"
  by (induction xs i rule: js_index.induct) auto

section \<open>Decimal printing\<close>

lemma digit_table_value: "n < 10 \<Longrightarrow> of_char (''0123456789'' ! n) - 48 = (n :: nat)"
proof -
  assume "n < 10"
  then have "n \<in> {0, 1, 2, 3, 4, 5, 6, 7, 8, 9}" by auto
  then show ?thesis by auto
qed

lemma decimal_value_snoc: "decimal_value (xs @ [c]) = 10 * decimal_value xs + (of_char c - 48)"
  by (simp add: decimal_value_def)

lemma decimal_value_js_nat_string: "decimal_value (js_nat_string n) = n"
proof (induction n rule: js_nat_string.induct)
  case (1 n)
  show ?case
  proof (cases "n < 10")
    case True
    then show ?thesis
      by (subst js_nat_string.simps) (simp add: decimal_value_def digit_table_value)
  next
    case False
    with "1.IH" have "decimal_value (js_nat_string (n div 10)) = n div 10" by simp
    with False show ?thesis
      by (subst js_nat_string.simps) (simp add: decimal_value_snoc digit_table_value)
  qed
qed

lemma js_nat_string_inj: "js_nat_string m = js_nat_string n \<Longrightarrow> m = n"
  by (metis decimal_value_js_nat_string)

section \<open>Trim\<close>

lemma set_js_trim: "set (js_trim s) \<subseteq> set s"
  unfolding js_trim_def by (metis set_dropWhileD set_rev subsetI)

lemma trimmed_js_trim [simp]: "trimmed (js_trim s)"
proof -
  define u where "u = dropWhile is_js_space s"
  define v where "v = dropWhile is_js_space (rev u)"
  have "trimmed (rev v)"
  proof (cases "v = []")
    case True
    then show ?thesis by (simp add: trimmed_def)
  next
    case False
    have v_hd: "\<not> is_js_space (hd v)"
      using False hd_dropWhile unfolding v_def by blast
    have "rev u = takeWhile is_js_space (rev u) @ v"
      unfolding v_def by simp
    then have "last v = hd u"
      using False by (metis last_appendR last_rev)
    moreover have "u \<noteq> []" using False by (auto simp: v_def)
    then have "\<not> is_js_space (hd u)"
      unfolding u_def by (rule hd_dropWhile)
    ultimately show ?thesis
      using False v_hd by (simp add: trimmed_def hd_rev last_rev)
  qed
  then show ?thesis by (simp add: js_trim_def u_def v_def)
qed

lemma js_trim_trimmed: "trimmed s \<Longrightarrow> js_trim s = s"
proof (cases s rule: rev_cases)
  case Nil
  then show ?thesis by (simp add: js_trim_def)
next
  case (snoc ys y)
  assume t: "trimmed s"
  show ?thesis
  proof (cases ys)
    case Nil
    with snoc t show ?thesis by (simp add: js_trim_def trimmed_def)
  next
    case (Cons z zs)
    with snoc t show ?thesis by (simp add: js_trim_def trimmed_def)
  qed
qed

lemma js_trim_leading_space:
  "\<forall>c \<in> set sp. is_js_space c \<Longrightarrow> js_trim (sp @ s) = js_trim s"
  by (induction sp) (simp_all add: js_trim_def)

end
