(* ===== verification/Types.thy ===== *)
theory Types
  imports Prelude
begin

text \<open>
  The data model of \<^verbatim>\<open>src/types.ts\<close>: the three interfaces as records, with the
  source's field names (\<^verbatim>\<open>Video.id\<close> is \<open>video_id\<close>, since \<open>id\<close> is HOL's
  identity, and the two counters of \<^verbatim>\<open>AnalyticsData\<close> carry a \<open>day_\<close> prefix so
  that they do not clash with the fields of \<^verbatim>\<open>Video\<close>). JavaScript numbers that
  hold counts and millisecond timestamps are integers here.
\<close>

record video_metadata =
  title :: js_string
  description :: js_string
  tags :: "js_string list"

record video =
  video_id :: js_string
  url :: url
  thumbnailUrl :: url
  metadata :: video_metadata
  createdAt :: int
  views :: int
  likes :: int
  author :: js_string

record analytics_data =
  day :: js_string
  day_views :: int
  day_likes :: int

end
