(* ===== verification/Video_Utils.thy ===== *)
theory Video_Utils
  imports Js_String
begin

text \<open>
  Frame capture and the data-URL prefix stripper of \<^verbatim>\<open>src/utils/videoUtils.ts\<close>.

  \<^verbatim>\<open>extractFrameFromVideo\<close> creates a hidden video element, a canvas and an object
  URL for the file, and registers three callbacks; the browser then calls them in an
  order the program does not control. The model keeps the function's local state
  (the video element's properties, the canvas, the object URL, the promise) as the
  record \<open>frame_capture\<close>, each callback as a function on it
  (\<open>on_loadedmetadata\<close>, \<open>on_seeked\<close>, \<open>on_error\<close>), and the browser's choice of
  the next callback as the step relation \<open>capture_reach\<close>: an event is possible when
  the media element can fire it (\<open>media_event_enabled\<close>). What the browser computes
  and the program only reads (the decoded size and duration, the JPEG encoding, a
  thrown drawing error) enters as the record \<open>media\<close> and the argument of the
  \<open>Seeked\<close> event. \<^verbatim>\<open>cleanBase64\<close> is a function of strings.
\<close>

section \<open>State\<close>

text \<open>What the decoder knows of the file once its metadata is loaded.\<close>

record media =
  video_width :: nat
  video_height :: nat
  duration :: seconds

text \<open>
  The canvas: its size and what the last \<^verbatim>\<open>drawImage\<close> painted (the media time
  of the frame and the destination width and height). A new canvas is 300 by 150
  pixels (HTML, the canvas element).
\<close>

record canvas =
  cv_width :: nat
  cv_height :: nat
  cv_frame :: "(seconds \<times> nat \<times> nat) option"

definition new_canvas :: canvas where
  "new_canvas = \<lparr>cv_width = 300, cv_height = 150, cv_frame = None\<rparr>"

datatype capture_error =
    Canvas_context_unavailable  \<comment> \<open>\<^verbatim>\<open>new Error('Could not get canvas context')\<close>\<close>
  | Video_load_error            \<comment> \<open>\<^verbatim>\<open>new Error('Error loading video')\<close>\<close>
  | Draw_exception              \<comment> \<open>the exception caught in \<^verbatim>\<open>onseeked\<close>\<close>

record frame_capture =
  fc_video :: media
  fc_canvas :: canvas
  object_url :: "nat option"   \<comment> \<open>the handle of \<^verbatim>\<open>URL.createObjectURL(videoFile)\<close>\<close>
  revocations :: nat          \<comment> \<open>calls of \<^verbatim>\<open>URL.revokeObjectURL(url)\<close>\<close>
  muted :: bool
  cross_origin :: "js_string option"
  current_time :: seconds
  metadata_loaded :: bool     \<comment> \<open>the element has fired \<^verbatim>\<open>loadedmetadata\<close>\<close>
  seek_pending :: bool        \<comment> \<open>a seek was started and its \<^verbatim>\<open>seeked\<close> has not fired\<close>
  media_errored :: bool       \<comment> \<open>the element has fired \<^verbatim>\<open>error\<close>\<close>
  outcome :: "(capture_error, js_string) promise"

section \<open>The browser operations the code calls\<close>

text \<open>
  Assigning \<^verbatim>\<open>currentTime\<close> seeks to the time clamped into the media's range
  (HTML, the seek algorithm).
\<close>

definition seek_position :: "media \<Rightarrow> seconds \<Rightarrow> seconds" where
  "seek_position m t = max 0 (min t (duration m))"

text \<open>
  \<^verbatim>\<open>canvas.toDataURL(type, quality)\<close>: \<^verbatim>\<open>"data:,"\<close> for a canvas with no pixels,
  otherwise the data URL of the encoded bitmap; \<open>payload\<close> is the encoder's base64
  text (the quality argument only changes that text).
\<close>

definition to_data_url :: "canvas \<Rightarrow> js_string \<Rightarrow> js_string \<Rightarrow> js_string" where
  "to_data_url cv ty payload =
     (if cv_width cv = 0 \<or> cv_height cv = 0 then ''data:,''
      else ''data:'' @ ty @ '';base64,'' @ payload)"

definition base64_alphabet :: js_string where
  "base64_alphabet = ''ABCDEFGHIJKLMNOPQRSTUVWXYZabcdefghijklmnopqrstuvwxyz0123456789+/=''"

definition is_base64 :: "js_string \<Rightarrow> bool" where
  "is_base64 s \<longleftrightarrow> (\<forall>c \<in> set s. c \<in> set base64_alphabet)"

text \<open>
  What \<^verbatim>\<open>drawImage\<close> followed by \<^verbatim>\<open>toDataURL\<close> does: both succeed, and the
  encoder produces a payload, or one of them throws.
\<close>

datatype draw_outcome = Draw_ok js_string | Draw_throws

section \<open>The code\<close>

text \<open>
  The synchronous part of \<^verbatim>\<open>extractFrameFromVideo\<close>, up to the registration of the
  callbacks. \<open>ctx_ok\<close> is whether \<^verbatim>\<open>getContext('2d')\<close> returned a context and
  \<open>h\<close> the handle the next \<^verbatim>\<open>createObjectURL\<close> returns.
\<close>

definition extract_frame_from_video :: "bool \<Rightarrow> nat \<Rightarrow> media \<Rightarrow> frame_capture" where
  "extract_frame_from_video ctx_ok h m =
     (let st = \<lparr>fc_video = m, fc_canvas = new_canvas, object_url = None, revocations = 0,
                muted = False, cross_origin = None, current_time = 0,
                metadata_loaded = False, seek_pending = False, media_errored = False,
                outcome = Pending\<rparr>
      in if \<not> ctx_ok then st\<lparr>outcome := js_reject (outcome st) Canvas_context_unavailable\<rparr>
         else st\<lparr>object_url := Some h, muted := True, cross_origin := Some ''anonymous''\<rparr>)"

text \<open>\<^verbatim>\<open>video.onloadedmetadata\<close>: size the canvas, then seek to one second.\<close>

definition on_loadedmetadata :: "frame_capture \<Rightarrow> frame_capture" where
  "on_loadedmetadata st =
     (let v = fc_video st;
          cv = (fc_canvas st)\<lparr>cv_width := video_width v, cv_height := video_height v\<rparr>
      in st\<lparr>fc_canvas := cv, current_time := seek_position v 1, seek_pending := True\<rparr>)"

text \<open>
  \<^verbatim>\<open>video.onseeked\<close>: draw the frame at the video's size, encode it as JPEG at
  quality 0.8, revoke the URL and resolve; an exception rejects without revoking.
\<close>

definition on_seeked :: "draw_outcome \<Rightarrow> frame_capture \<Rightarrow> frame_capture" where
  "on_seeked d st =
     (case d of
        Draw_throws \<Rightarrow> st\<lparr>outcome := js_reject (outcome st) Draw_exception\<rparr>
      | Draw_ok payload \<Rightarrow>
          (let v = fc_video st;
               cv = (fc_canvas st)\<lparr>cv_frame := Some (current_time st, video_width v, video_height v)\<rparr>;
               data_url = to_data_url cv ''image/jpeg'' payload
           in st\<lparr>fc_canvas := cv, revocations := Suc (revocations st),
                 outcome := js_resolve (outcome st) data_url\<rparr>))"

text \<open>\<^verbatim>\<open>video.onerror\<close>: revoke the URL and reject.\<close>

definition on_error :: "frame_capture \<Rightarrow> frame_capture" where
  "on_error st =
     st\<lparr>revocations := Suc (revocations st), outcome := js_reject (outcome st) Video_load_error\<rparr>"

declare on_loadedmetadata_def [handler_defs] on_seeked_def [handler_defs]
  on_error_def [handler_defs] extract_frame_from_video_def [handler_defs]

section \<open>The browser's choice of callbacks\<close>

datatype media_event = Loaded_metadata | Seeked draw_outcome | Media_error

text \<open>
  An element with no source fires nothing; \<^verbatim>\<open>loadedmetadata\<close> fires at most once;
  \<^verbatim>\<open>seeked\<close> fires once per started seek; \<^verbatim>\<open>error\<close> fires at most once and
  stops everything else. The encoder's text is base64.
\<close>

fun media_event_enabled :: "frame_capture \<Rightarrow> media_event \<Rightarrow> bool" where
  "media_event_enabled st Loaded_metadata =
     (object_url st \<noteq> None \<and> \<not> metadata_loaded st \<and> \<not> media_errored st)"
| "media_event_enabled st (Seeked d) =
     (seek_pending st \<and> \<not> media_errored st \<and>
      (case d of Draw_ok p \<Rightarrow> is_base64 p | Draw_throws \<Rightarrow> True))"
| "media_event_enabled st Media_error = (object_url st \<noteq> None \<and> \<not> media_errored st)"

fun dispatch :: "frame_capture \<Rightarrow> media_event \<Rightarrow> frame_capture" where
  "dispatch st Loaded_metadata = on_loadedmetadata (st\<lparr>metadata_loaded := True\<rparr>)"
| "dispatch st (Seeked d) = on_seeked d (st\<lparr>seek_pending := False\<rparr>)"
| "dispatch st Media_error = on_error (st\<lparr>media_errored := True\<rparr>)"

inductive capture_reach :: "bool \<Rightarrow> nat \<Rightarrow> media \<Rightarrow> frame_capture \<Rightarrow> bool" where
  start: "capture_reach ctx_ok h m (extract_frame_from_video ctx_ok h m)"
| step: "capture_reach ctx_ok h m st \<Longrightarrow> media_event_enabled st e \<Longrightarrow>
           capture_reach ctx_ok h m (dispatch st e)"

text \<open>An executable run of a list of events; \<open>None\<close> when an event is not possible.\<close>

fun capture_run :: "frame_capture \<Rightarrow> media_event list \<Rightarrow> frame_capture option" where
  "capture_run st [] = Some st"
| "capture_run st (e # es) =
     (if media_event_enabled st e then capture_run (dispatch st e) es else None)"

section \<open>cleanBase64\<close>

text \<open>\<^verbatim>\<open>dataUrl.split(',')[1]\<close>; \<open>None\<close> is \<^verbatim>\<open>undefined\<close>.\<close>

definition cleanBase64 :: "js_string \<Rightarrow> js_string option" where
  "cleanBase64 dataUrl = js_index (js_split (CHR '','') dataUrl) 1"

section \<open>The invariant of a capture\<close>

text \<open>
  What holds in every state the browser can drive a capture into: the URL has been
  revoked once for each of the two callbacks that revoke it and that have run (a
  resolved promise means \<^verbatim>\<open>onseeked\<close> succeeded); a capture with no context has
  no URL and nothing fires; the promise stays pending while the element can still
  deliver a frame; once the metadata is loaded the canvas has the video's size and the
  seek target is one second, clamped; a resolved value is the data URL of a canvas
  that holds the frame at that time at the video's full size.
\<close>

definition capture_inv :: "media \<Rightarrow> frame_capture \<Rightarrow> bool" where
  "capture_inv m st \<longleftrightarrow>
     fc_video st = m \<and>
     revocations st = of_bool (is_resolved (outcome st)) + of_bool (media_errored st) \<and>
     (object_url st = None \<longrightarrow>
        outcome st = Rejected Canvas_context_unavailable \<and> \<not> metadata_loaded st \<and>
        \<not> media_errored st \<and> \<not> seek_pending st) \<and>
     (object_url st \<noteq> None \<and> \<not> media_errored st \<and> (\<not> metadata_loaded st \<or> seek_pending st)
        \<longrightarrow> outcome st = Pending) \<and>
     (seek_pending st \<longrightarrow> metadata_loaded st) \<and>
     (metadata_loaded st \<longrightarrow>
        cv_width (fc_canvas st) = video_width m \<and> cv_height (fc_canvas st) = video_height m \<and>
        current_time st = seek_position m 1) \<and>
     (\<forall>d. outcome st = Resolved d \<longrightarrow>
        metadata_loaded st \<and>
        cv_frame (fc_canvas st) = Some (seek_position m 1, video_width m, video_height m) \<and>
        (\<exists>p. is_base64 p \<and> d = to_data_url (fc_canvas st) ''image/jpeg'' p))"

text \<open>The end-to-end scenario of the specification: a ten-second 640 by 360 clip.\<close>

definition clip_640x360 :: media where
  "clip_640x360 = \<lparr>video_width = 640, video_height = 360, duration = 10\<rparr>"

section \<open>The invariant holds in every reachable state\<close>

lemma capture_inv_start: "capture_inv m (extract_frame_from_video ctx_ok h m)"
  by (simp add: capture_inv_def extract_frame_from_video_def Let_def)

lemma capture_inv_loaded:
  "capture_inv m st \<Longrightarrow> media_event_enabled st Loaded_metadata \<Longrightarrow>
   capture_inv m (dispatch st Loaded_metadata)"
  by (auto simp: capture_inv_def on_loadedmetadata_def Let_def)

lemma capture_inv_seeked:
  "capture_inv m st \<Longrightarrow> media_event_enabled st (Seeked d) \<Longrightarrow>
   capture_inv m (dispatch st (Seeked d))"
  by (cases d) (auto simp: capture_inv_def on_seeked_def Let_def)

lemma capture_inv_error:
  "capture_inv m st \<Longrightarrow> media_event_enabled st Media_error \<Longrightarrow>
   capture_inv m (dispatch st Media_error)"
  by (cases "outcome st") (auto simp: capture_inv_def on_error_def js_reject_def)

lemma capture_inv_dispatch:
  "capture_inv m st \<Longrightarrow> media_event_enabled st e \<Longrightarrow> capture_inv m (dispatch st e)"
  using capture_inv_loaded capture_inv_seeked capture_inv_error by (cases e) blast+

lemma capture_reach_inv: "capture_reach ctx_ok h m st \<Longrightarrow> capture_inv m st"
  by (induction rule: capture_reach.induct) (auto intro: capture_inv_start capture_inv_dispatch)

lemma capture_run_reach:
  "capture_run st es = Some st' \<Longrightarrow> capture_reach ctx_ok h m st \<Longrightarrow> capture_reach ctx_ok h m st'"
proof (induction st es rule: capture_run.induct)
  case (1 st)
  then show ?case by simp
next
  case (2 st e es)
  then show ?case by (auto split: if_splits intro: capture_reach.step)
qed

lemma capture_run_start_reach:
  "capture_run (extract_frame_from_video ctx_ok h m) es = Some st \<Longrightarrow> capture_reach ctx_ok h m st"
  using capture_run_reach capture_reach.start by blast

lemma capture_resolved_frame:
  "capture_reach ctx_ok h m st \<Longrightarrow> outcome st = Resolved d \<Longrightarrow>
   \<exists>p. is_base64 p \<and> d = to_data_url (fc_canvas st) ''image/jpeg'' p \<and>
     cv_width (fc_canvas st) = video_width m \<and> cv_height (fc_canvas st) = video_height m \<and>
     cv_frame (fc_canvas st) = Some (seek_position m 1, video_width m, video_height m)"
  using capture_reach_inv unfolding capture_inv_def by blast

section \<open>Lemmas on cleanBase64\<close>

lemma comma_not_base64: "CHR '','' \<notin> set base64_alphabet"
  by (simp add: base64_alphabet_def)

lemma is_base64_no_comma: "is_base64 p \<Longrightarrow> CHR '','' \<notin> set p"
  using comma_not_base64 unfolding is_base64_def by blast

lemma cleanBase64_after_comma:
  "CHR '','' \<notin> set w \<Longrightarrow> CHR '','' \<notin> set p \<Longrightarrow> cleanBase64 (w @ CHR '','' # p) = Some p"
  by (simp add: cleanBase64_def js_split_append_sep)


section \<open>Properties of the frame capture\<close>

text \<open>
  C1. Whenever the capture promise resolves, its value is the data URL of a canvas
  exactly as large as the video's intrinsic size, holding the frame at one second
  clamped into the video's duration, encoded as JPEG with a base64 payload; no
  scaling or cropping happens.
\<close>

theorem captured_frame_dims:
  assumes "capture_reach ctx_ok h m st" and "outcome st = Resolved d"
  shows "(\<exists>p. is_base64 p \<and> d = to_data_url (fc_canvas st) ''image/jpeg'' p) \<and>
     cv_width (fc_canvas st) = video_width m \<and> cv_height (fc_canvas st) = video_height m \<and>
     cv_frame (fc_canvas st) = Some (seek_position m 1, video_width m, video_height m)"
  using capture_resolved_frame [OF assms] by blast

lemma captured_frame_dims_witness:
  "cv_width (fc_canvas (the (capture_run (extract_frame_from_video True 0 clip_640x360)
      [Loaded_metadata, Seeked (Draw_ok ''QUJD'')]))) = 640 \<and>
   cv_frame (fc_canvas (the (capture_run (extract_frame_from_video True 0 clip_640x360)
      [Loaded_metadata, Seeked (Draw_ok ''QUJD'')]))) = Some (1, 640, 360)"
proof -
  let ?st = "dispatch (dispatch (extract_frame_from_video True 0 clip_640x360) Loaded_metadata)
               (Seeked (Draw_ok ''QUJD''))"
  have b: "is_base64 ''QUJD''" by (simp add: is_base64_def base64_alphabet_def)
  have run: "capture_run (extract_frame_from_video True 0 clip_640x360)
      [Loaded_metadata, Seeked (Draw_ok ''QUJD'')] = Some ?st"
    using b by (simp add: handler_defs Let_def)
  have res: "outcome ?st = Resolved ''data:image/jpeg;base64,QUJD''"
    by (simp add: handler_defs Let_def clip_640x360_def to_data_url_def)
  show ?thesis
    using captured_frame_dims [OF capture_run_start_reach [OF run] res] run
    by (simp add: clip_640x360_def seek_position_def)
qed

text \<open>
  C2. The object URL is revoked exactly once for each revoking callback that has run:
  once if the frame was delivered, once if the element reported an error, and never
  otherwise. So a failed draw leaves it unrevoked and an error after a delivered
  frame revokes it a second time.
\<close>

theorem capture_revocations:
  "capture_reach ctx_ok h m st \<Longrightarrow>
   revocations st = of_bool (is_resolved (outcome st)) + of_bool (media_errored st)"
  using capture_reach_inv unfolding capture_inv_def by blast

lemma capture_revocations_witness:
  "revocations (the (capture_run (extract_frame_from_video True 0 clip_640x360)
      [Loaded_metadata, Seeked (Draw_ok ''QUJD''), Media_error])) = 2"
proof -
  let ?st = "dispatch (dispatch (dispatch (extract_frame_from_video True 0 clip_640x360)
               Loaded_metadata) (Seeked (Draw_ok ''QUJD''))) Media_error"
  have b: "is_base64 ''QUJD''" by (simp add: is_base64_def base64_alphabet_def)
  have run: "capture_run (extract_frame_from_video True 0 clip_640x360)
      [Loaded_metadata, Seeked (Draw_ok ''QUJD''), Media_error] = Some ?st"
    using b by (simp add: handler_defs Let_def)
  have "is_resolved (outcome ?st) \<and> media_errored ?st"
    by (simp add: handler_defs Let_def)
  then show ?thesis
    using capture_revocations [OF capture_run_start_reach [OF run]] run by simp
qed

text \<open>
  C3. On the normal path (a context is available, the metadata loads, the seek lands
  and the frame is drawn and encoded) the promise resolves to the JPEG data URL of a
  canvas of the video's size holding the frame at one second clamped to the duration,
  and the URL has been revoked once.
\<close>

theorem extract_frame_success:
  assumes "is_base64 p"
  shows "\<exists>st. capture_run (extract_frame_from_video True h m)
                 [Loaded_metadata, Seeked (Draw_ok p)] = Some st \<and>
     outcome st = Resolved (to_data_url (fc_canvas st) ''image/jpeg'' p) \<and>
     cv_width (fc_canvas st) = video_width m \<and> cv_height (fc_canvas st) = video_height m \<and>
     cv_frame (fc_canvas st) = Some (seek_position m 1, video_width m, video_height m) \<and>
     revocations st = 1"
  using assms by (simp add: handler_defs Let_def)

lemma extract_frame_success_witness:
  "capture_run (extract_frame_from_video True 0 clip_640x360)
     [Loaded_metadata, Seeked (Draw_ok ''LzlqLzRBQVE='')] \<noteq> None \<and>
   outcome (the (capture_run (extract_frame_from_video True 0 clip_640x360)
     [Loaded_metadata, Seeked (Draw_ok ''LzlqLzRBQVE='')])) =
     Resolved ''data:image/jpeg;base64,LzlqLzRBQVE=''"
proof -
  have b: "is_base64 ''LzlqLzRBQVE=''" by (simp add: is_base64_def base64_alphabet_def)
  from extract_frame_success [OF b, of 0 clip_640x360] obtain st where
      run: "capture_run (extract_frame_from_video True 0 clip_640x360)
              [Loaded_metadata, Seeked (Draw_ok ''LzlqLzRBQVE='')] = Some st"
    and res: "outcome st = Resolved (to_data_url (fc_canvas st) ''image/jpeg'' ''LzlqLzRBQVE='')"
    and w: "cv_width (fc_canvas st) = video_width clip_640x360"
    and h: "cv_height (fc_canvas st) = video_height clip_640x360"
    by blast
  from res w h have "outcome st = Resolved ''data:image/jpeg;base64,LzlqLzRBQVE=''"
    by (simp add: to_data_url_def clip_640x360_def)
  with run show ?thesis by simp
qed

text \<open>
  C4. When drawing or encoding throws, the promise is rejected but the object URL is
  never revoked: after the failed draw the only callback the element can still run is
  \<^verbatim>\<open>onerror\<close>, which a drawing failure does not trigger.
\<close>

theorem capture_draw_failure_leaks:
  "\<exists>st. capture_run (extract_frame_from_video True h m) [Loaded_metadata, Seeked Draw_throws] = Some st \<and>
     capture_reach True h m st \<and>
     outcome st = Rejected Draw_exception \<and> object_url st = Some h \<and> revocations st = 0 \<and>
     (\<forall>e. media_event_enabled st e = (e = Media_error))"
proof -
  let ?st = "dispatch (dispatch (extract_frame_from_video True h m) Loaded_metadata) (Seeked Draw_throws)"
  have run: "capture_run (extract_frame_from_video True h m) [Loaded_metadata, Seeked Draw_throws] = Some ?st"
    by (simp add: handler_defs Let_def)
  have "media_event_enabled ?st e = (e = Media_error)" for e
    by (cases e) (simp_all add: handler_defs Let_def)
  with capture_run_start_reach [OF run] run show ?thesis by (simp add: handler_defs Let_def)
qed

text \<open>
  C5. Without a 2D context the promise is rejected at once, no object URL is created
  and no callback can ever run: the start state is the only reachable one.
\<close>

theorem capture_no_context:
  "capture_reach False h m st \<Longrightarrow>
   st = extract_frame_from_video False h m \<and> outcome st = Rejected Canvas_context_unavailable \<and>
   object_url st = None \<and> revocations st = 0"
proof (induction False h m st rule: capture_reach.induct)
  case (start h m)
  then show ?case by (simp add: extract_frame_from_video_def Let_def)
next
  case (step h m st e)
  then show ?case by (cases e) (simp_all add: extract_frame_from_video_def Let_def)
qed

lemma capture_no_context_witness:
  "outcome (extract_frame_from_video False 0 clip_640x360) = Rejected Canvas_context_unavailable"
  using capture_no_context [OF capture_reach.start [of False 0 clip_640x360]] by blast

section \<open>Properties of cleanBase64\<close>

text \<open>
  C6. \<^verbatim>\<open>cleanBase64\<close> equals the reference reading "the text between the first
  comma and the next comma, if there is a comma": it does not return everything after
  the first comma, and it returns \<^verbatim>\<open>undefined\<close> when there is no comma.
\<close>

theorem cleanBase64_eq_reference:
  "cleanBase64 s =
     (if CHR '','' \<in> set s
      then Some (takeWhile (\<lambda>x. x \<noteq> CHR '','') (tl (dropWhile (\<lambda>x. x \<noteq> CHR '','') s)))
      else None)"
proof (cases "CHR '','' \<in> set s")
  case True
  let ?r = "tl (dropWhile (\<lambda>x. x \<noteq> CHR '','') s)"
  have "js_split (CHR '','') s = takeWhile (\<lambda>x. x \<noteq> CHR '','') s # js_split (CHR '','') ?r"
    using True by (subst js_split_first) simp
  moreover have "hd (js_split (CHR '','') ?r) = takeWhile (\<lambda>x. x \<noteq> CHR '','') ?r"
    by (subst js_split_first) simp
  ultimately show ?thesis
    using True js_split_not_Nil [of "CHR '',''" ?r]
    by (cases "js_split (CHR '','') ?r") (simp_all add: cleanBase64_def)
next
  case False
  then show ?thesis by (simp add: cleanBase64_def)
qed

text \<open>
  C7. On a data URL \<^verbatim>\<open>data:<mime>;base64,<payload>\<close> whose media type and payload
  hold no comma (base64 text never does), \<^verbatim>\<open>cleanBase64\<close> returns the payload
  exactly, with nothing added or cut.
\<close>

theorem cleanBase64_data_url:
  assumes "CHR '','' \<notin> set mime" and "CHR '','' \<notin> set payload"
  shows "cleanBase64 (''data:'' @ mime @ '';base64,'' @ payload) = Some payload"
  using cleanBase64_after_comma [of "''data:'' @ mime @ '';base64''" payload] assms by simp

lemma cleanBase64_data_url_witness:
  "cleanBase64 ''data:image/jpeg;base64,/9j/4AAQ'' = Some ''/9j/4AAQ''"
  using cleanBase64_data_url [of "''image/jpeg''" "''/9j/4AAQ''"] by simp

text \<open>
  C8. On a string with no comma \<^verbatim>\<open>cleanBase64\<close> raises no error: it returns
  \<^verbatim>\<open>undefined\<close>.
\<close>

theorem cleanBase64_no_comma: "CHR '','' \<notin> set s \<Longrightarrow> cleanBase64 s = None"
  by (simp add: cleanBase64_def)

lemma cleanBase64_no_comma_witness: "cleanBase64 ''not a data url'' = None"
  using cleanBase64_no_comma [of "''not a data url''"] by simp

text \<open>
  C9. Applied to the value of a resolved capture, \<^verbatim>\<open>cleanBase64\<close> yields the
  encoder's base64 payload; for a video with no picture (width or height 0, such as an
  audio-only file) the canvas has no pixels, the capture resolves to
  \<^verbatim>\<open>"data:,"\<close> and the payload handed on is the empty string.
\<close>

theorem cleanBase64_captured_frame:
  assumes "capture_reach ctx_ok h m st" and "outcome st = Resolved d"
  shows "\<exists>p. is_base64 p \<and>
     cleanBase64 d = Some (if video_width m = 0 \<or> video_height m = 0 then [] else p)"
proof -
  from capture_resolved_frame [OF assms] obtain p where p: "is_base64 p"
    and d: "d = to_data_url (fc_canvas st) ''image/jpeg'' p"
    and wh: "cv_width (fc_canvas st) = video_width m" "cv_height (fc_canvas st) = video_height m"
    by blast
  have "cleanBase64 d = Some (if video_width m = 0 \<or> video_height m = 0 then [] else p)"
  proof (cases "video_width m = 0 \<or> video_height m = 0")
    case True
    with d wh show ?thesis by (auto simp: to_data_url_def cleanBase64_def)
  next
    case False
    with d wh have "d = (''data:image/jpeg;base64'') @ CHR '','' # p"
      by (simp add: to_data_url_def)
    moreover have "cleanBase64 (''data:image/jpeg;base64'' @ CHR '','' # p) = Some p"
      by (rule cleanBase64_after_comma) (simp_all add: is_base64_no_comma [OF p])
    ultimately show ?thesis using False by simp
  qed
  with p show ?thesis by blast
qed

lemma cleanBase64_captured_frame_witness:
  "cleanBase64 (to_data_url (fc_canvas (dispatch (dispatch (extract_frame_from_video True 0
      \<lparr>video_width = 0, video_height = 0, duration = 10\<rparr>) Loaded_metadata) (Seeked (Draw_ok ''QUJD''))))
      ''image/jpeg'' ''QUJD'') = Some []"
proof -
  let ?m = "\<lparr>video_width = 0, video_height = 0, duration = 10\<rparr>"
  let ?st = "dispatch (dispatch (extract_frame_from_video True 0 ?m) Loaded_metadata) (Seeked (Draw_ok ''QUJD''))"
  have b: "is_base64 ''QUJD''" by (simp add: is_base64_def base64_alphabet_def)
  have run: "capture_run (extract_frame_from_video True 0 ?m)
      [Loaded_metadata, Seeked (Draw_ok ''QUJD'')] = Some ?st"
    using b by (simp add: handler_defs Let_def)
  have res: "outcome ?st = Resolved (to_data_url (fc_canvas ?st) ''image/jpeg'' ''QUJD'')"
    by (simp add: handler_defs Let_def)
  from cleanBase64_captured_frame [OF capture_run_start_reach [OF run] res] show ?thesis
    by simp
qed

end
