(* ===== verification/Capture_Spec.thy ===== *)
theory Capture_Spec
  imports Video_Utils
begin

text \<open>
  The contract the specification gives the frame capture (sections 4.1 and 7 of the
  spec), as an event system. The capture waits for the decoder's metadata, then for
  the seek to the requested time; a presentable frame delivers exactly one frame, at
  the video's intrinsic size and at the requested time clamped into the video; a
  decoding error fails with \<open>SourceUnreadable\<close>, a seek or drawing error with
  \<open>CaptureFailed\<close>. Both outcomes are final: a settled capture ignores every later
  event. \<open>capture_phase\<close> is the abstract state, \<open>spec_event\<close> the events of the
  contract, \<open>capture_spec_step\<close> its labelled transitions; \<open>spec_event_of\<close> maps each
  callback of the media element to the contract's event, and \<open>capture_abs\<close> reads
  the abstract state off the concrete \<open>frame_capture\<close> of \<open>Video_Utils\<close>
  (\<open>None\<close> for a concrete state the contract has no counterpart for, such as a
  resolved promise with nothing drawn). The refinement theorem is the simulation
  square of a functional refinement mapping with an event mapping.
\<close>

section \<open>The abstract contract\<close>

datatype spec_error = Source_unreadable | Capture_failed

datatype capture_phase =
    Awaiting_metadata
  | Seeking
  | Delivered nat nat seconds   \<comment> \<open>width, height and media time of the one frame\<close>
  | Failed spec_error

datatype spec_event = Metadata_ready | Frame_ready | Seek_or_draw_failed | Decode_error

fun phase_settled :: "capture_phase \<Rightarrow> bool" where
  "phase_settled (Delivered _ _ _) = True"
| "phase_settled (Failed _) = True"
| "phase_settled _ = False"

inductive capture_spec_step ::
  "media \<Rightarrow> capture_phase \<Rightarrow> spec_event \<Rightarrow> capture_phase \<Rightarrow> bool" for m where
  metadata: "capture_spec_step m Awaiting_metadata Metadata_ready Seeking"
| deliver: "capture_spec_step m Seeking Frame_ready
              (Delivered (video_width m) (video_height m) (seek_position m 1))"
| capture_failed: "capture_spec_step m Seeking Seek_or_draw_failed (Failed Capture_failed)"
| unreadable: "\<not> phase_settled a \<Longrightarrow> capture_spec_step m a Decode_error (Failed Source_unreadable)"
| settled: "phase_settled a \<Longrightarrow> capture_spec_step m a ev a"

text \<open>The contract's initial state: a capture without a drawing context has already failed.\<close>

definition capture_spec_init :: "bool \<Rightarrow> capture_phase" where
  "capture_spec_init ctx_ok = (if ctx_ok then Awaiting_metadata else Failed Capture_failed)"

text \<open>Which event of the contract a callback of the media element is.\<close>

fun spec_event_of :: "media_event \<Rightarrow> spec_event" where
  "spec_event_of Loaded_metadata = Metadata_ready"
| "spec_event_of (Seeked (Draw_ok _)) = Frame_ready"
| "spec_event_of (Seeked Draw_throws) = Seek_or_draw_failed"
| "spec_event_of Media_error = Decode_error"

fun spec_error_of :: "capture_error \<Rightarrow> spec_error" where
  "spec_error_of Canvas_context_unavailable = Capture_failed"
| "spec_error_of Video_load_error = Source_unreadable"
| "spec_error_of Draw_exception = Capture_failed"

definition capture_abs :: "frame_capture \<Rightarrow> capture_phase option" where
  "capture_abs st =
     (case outcome st of
        Pending \<Rightarrow> Some (if seek_pending st then Seeking else Awaiting_metadata)
      | Rejected e \<Rightarrow> Some (Failed (spec_error_of e))
      | Resolved _ \<Rightarrow> (case cv_frame (fc_canvas st) of
                         Some (t, w, h) \<Rightarrow> Some (Delivered w h t)
                       | None \<Rightarrow> None))"

inductive_cases capture_spec_stepE: "capture_spec_step m a ev b"

section \<open>Lemmas\<close>

lemma capture_spec_step_settled_final:
  "capture_spec_step m a ev b \<Longrightarrow> phase_settled a \<Longrightarrow> b = a"
  by (auto elim: capture_spec_stepE)

lemma capture_abs_start:
  "capture_abs (extract_frame_from_video ctx_ok h m) = Some (capture_spec_init ctx_ok)"
  by (simp add: capture_abs_def capture_spec_init_def extract_frame_from_video_def Let_def)

lemma seeked_enabled_pending:
  "capture_reach ctx_ok h m st \<Longrightarrow> media_event_enabled st (Seeked d) \<Longrightarrow>
   outcome st = Pending \<and> current_time st = seek_position m 1 \<and> fc_video st = m"
  using capture_reach_inv [of ctx_ok h m st] by (auto simp: capture_inv_def)

lemma loaded_enabled_pending:
  "capture_reach ctx_ok h m st \<Longrightarrow> media_event_enabled st Loaded_metadata \<Longrightarrow>
   outcome st = Pending \<and> \<not> seek_pending st"
  using capture_reach_inv [of ctx_ok h m st] by (auto simp: capture_inv_def)

lemma capture_abs_reach:
  "capture_reach ctx_ok h m st \<Longrightarrow> capture_abs st \<noteq> None"
  using capture_reach_inv [of ctx_ok h m st]
  by (auto simp: capture_abs_def capture_inv_def split: promise.splits)

lemma capture_abs_settled:
  "settled (outcome st) \<Longrightarrow> capture_abs st = Some a \<Longrightarrow> phase_settled a"
  by (auto simp: capture_abs_def split: promise.splits option.splits prod.splits)

lemma capture_abs_error_settled:
  assumes "settled (outcome st)"
  shows "capture_abs (dispatch st Media_error) = capture_abs st"
  using assms by (auto simp: capture_abs_def on_error_def split: promise.splits)


section \<open>Refinement\<close>

text \<open>
  C25. The frame capture refines the specification's contract. From every reachable
  state, every callback the media element can fire is matched by the contract's step
  for the corresponding event, from the abstract state of the capture to the abstract
  state after the callback: the metadata callback starts the seek, a drawn frame
  delivers the one frame at the intrinsic size and at one second clamped into the
  video, a drawing error fails with \<open>CaptureFailed\<close>, a media error with
  \<open>SourceUnreadable\<close>, and every callback after settlement leaves the outcome as it
  is. The abstraction is defined on every reachable state.
\<close>

theorem capture_refines_spec:
  assumes "capture_reach ctx_ok h m st" and "media_event_enabled st e"
  shows "\<exists>a a'. capture_abs st = Some a \<and> capture_abs (dispatch st e) = Some a' \<and>
           capture_spec_step m a (spec_event_of e) a'"
proof (cases e)
  case Loaded_metadata
  with loaded_enabled_pending [OF assms(1)] assms(2) show ?thesis
    by (simp add: capture_abs_def on_loadedmetadata_def Let_def capture_spec_step.metadata)
next
  case (Seeked d)
  with seeked_enabled_pending [OF assms(1)] assms(2)
  have st: "outcome st = Pending" "current_time st = seek_position m 1" "fc_video st = m"
    "seek_pending st"
    by auto
  show ?thesis
  proof (cases d)
    case (Draw_ok p)
    with Seeked st show ?thesis
      by (simp add: capture_abs_def on_seeked_def Let_def capture_spec_step.deliver)
  next
    case Draw_throws
    with Seeked st show ?thesis
      by (simp add: capture_abs_def on_seeked_def capture_spec_step.capture_failed)
  qed
next
  case Media_error
  obtain a where a: "capture_abs st = Some a"
    using capture_abs_reach [OF assms(1)] by blast
  show ?thesis
  proof (cases "settled (outcome st)")
    case True
    then have "capture_abs (dispatch st e) = Some a"
      using a Media_error by (simp only: capture_abs_error_settled)
    with True a show ?thesis
      by (blast intro: capture_spec_step.settled capture_abs_settled)
  next
    case False
    then have "outcome st = Pending" by (cases "outcome st") simp_all
    with a have "\<not> phase_settled a"
      by (auto simp: capture_abs_def split: if_splits)
    then have "capture_spec_step m a Decode_error (Failed Source_unreadable)"
      by (rule capture_spec_step.unreadable)
    with \<open>outcome st = Pending\<close> a Media_error show ?thesis
      by (simp add: capture_abs_def on_error_def)
  qed
qed

lemma capture_refines_spec_witness:
  "capture_spec_step clip_640x360 Seeking Frame_ready (Delivered 640 360 1) \<and>
   capture_abs (dispatch (dispatch (extract_frame_from_video True 0 clip_640x360) Loaded_metadata)
     (Seeked (Draw_ok ''QUJD''))) = Some (Delivered 640 360 1)"
proof -
  let ?st = "dispatch (extract_frame_from_video True 0 clip_640x360) Loaded_metadata"
  have r: "capture_run (extract_frame_from_video True 0 clip_640x360) [Loaded_metadata] = Some ?st"
    by (simp add: handler_defs Let_def)
  have en: "media_event_enabled ?st (Seeked (Draw_ok ''QUJD''))"
    by (simp add: handler_defs Let_def is_base64_def base64_alphabet_def)
  have a: "capture_abs ?st = Some Seeking"
    by (simp add: capture_abs_def handler_defs Let_def)
  have a': "capture_abs (dispatch ?st (Seeked (Draw_ok ''QUJD''))) = Some (Delivered 640 360 1)"
    by (simp add: capture_abs_def handler_defs Let_def clip_640x360_def seek_position_def)
  from capture_refines_spec [OF capture_run_start_reach [OF r] en] a a' show ?thesis by simp
qed

end
