(* ===== verification/Video_Card.thy ===== *)
theory Video_Card
  imports Types Js_String
begin

text \<open>
  What a \<^verbatim>\<open>VideoCard\<close> (\<^verbatim>\<open>src/components/VideoCard.tsx\<close>) and an entry of the
  player's Up Next list (\<^verbatim>\<open>src/App.tsx\<close>) display of a video, as records of the
  texts and image sources they render. The counters go through two different
  conversions: the card calls \<^verbatim>\<open>toLocaleString()\<close>, modelled for the en-US locale
  (groups of three digits separated by commas), and the Up Next entry interpolates
  the number, which is \<^verbatim>\<open>String(n)\<close>. The date of \<^verbatim>\<open>toLocaleDateString\<close> is
  kept as the timestamp it formats.
\<close>

section \<open>Number formatting\<close>

text \<open>\<^verbatim>\<open>String(n)\<close> for an integer.\<close>

definition js_int_string :: "int \<Rightarrow> js_string" where
  "js_int_string n = (if n < 0 then ''-'' else []) @ js_nat_string (nat \<bar>n\<bar>)"

text \<open>Insert a separator after every third digit, counting from the right (on the reversed digits).\<close>

fun group_digits_rev :: "js_string \<Rightarrow> js_string" where
  "group_digits_rev (a # b # c # d # rest) = a # b # c # CHR '','' # group_digits_rev (d # rest)"
| "group_digits_rev xs = xs"

definition to_locale_string :: "int \<Rightarrow> js_string" where
  "to_locale_string n =
     (if n < 0 then ''-'' else []) @ rev (group_digits_rev (rev (js_nat_string (nat \<bar>n\<bar>))))"

section \<open>The rendered card and Up Next entry\<close>

record card_view =
  card_image :: url
  card_alt :: js_string
  card_badge :: js_string
  card_title :: js_string
  card_description :: js_string
  card_views :: js_string
  card_likes :: js_string
  card_date :: int

definition video_card :: "video \<Rightarrow> card_view" where
  "video_card v =
     \<lparr>card_image = thumbnailUrl v, card_alt = title (metadata v), card_badge = ''4:20'',
      card_title = title (metadata v), card_description = description (metadata v),
      card_views = to_locale_string (views v), card_likes = to_locale_string (likes v),
      card_date = createdAt v\<rparr>"

record up_next_entry =
  entry_image :: url
  entry_title :: js_string
  entry_author :: js_string
  entry_views :: js_string

definition up_next_item :: "video \<Rightarrow> up_next_entry" where
  "up_next_item v =
     \<lparr>entry_image = thumbnailUrl v, entry_title = title (metadata v), entry_author = author v,
      entry_views = js_int_string (views v) @ '' views''\<rparr>"

section \<open>Lemmas\<close>

lemma js_nat_string_not_Nil [simp]: "js_nat_string n \<noteq> []"
  by (subst js_nat_string.simps) simp

lemma digit_not_comma: "n < 10 \<Longrightarrow> ''0123456789'' ! n \<noteq> CHR '',''"
proof -
  assume "n < 10"
  then have "n \<in> {0, 1, 2, 3, 4, 5, 6, 7, 8, 9}" by auto
  then show ?thesis by auto
qed

lemma comma_not_digit: "CHR '','' \<notin> set (js_nat_string n)"
proof (induction n rule: js_nat_string.induct)
  case (1 n)
  then show ?case
    using digit_not_comma [of n] digit_not_comma [of "n mod 10"]
    by (subst js_nat_string.simps) auto
qed

lemma comma_in_group_digits_rev:
  "CHR '','' \<notin> set xs \<Longrightarrow> CHR '','' \<in> set (group_digits_rev xs) \<longleftrightarrow> 4 \<le> length xs"
  by (induction xs rule: group_digits_rev.induct) auto

lemma length_js_nat_string_le: "length (js_nat_string n) \<le> Suc k \<longleftrightarrow> n < 10 ^ Suc k"
proof (induction k arbitrary: n)
  case 0
  show ?case by (subst js_nat_string.simps) auto
next
  case (Suc k)
  show ?case
  proof (cases "n < 10")
    case True
    then show ?thesis by (subst js_nat_string.simps) (simp add: less_le_trans [of n 10])
  next
    case False
    then have "length (js_nat_string n) = Suc (length (js_nat_string (n div 10)))"
      by (subst js_nat_string.simps) simp
    with Suc.IH [of "n div 10"] show ?thesis
      by (simp add: div_less_iff_less_mult mult.commute)
  qed
qed

lemma comma_in_to_locale_string:
  "CHR '','' \<in> set (to_locale_string n) \<longleftrightarrow> 1000 \<le> \<bar>n\<bar>"
proof -
  let ?ds = "js_nat_string (nat \<bar>n\<bar>)"
  have "CHR '','' \<in> set (to_locale_string n) \<longleftrightarrow> CHR '','' \<in> set (group_digits_rev (rev ?ds))"
    by (auto simp: to_locale_string_def)
  also have "\<dots> \<longleftrightarrow> \<not> length ?ds \<le> Suc 2"
    using comma_in_group_digits_rev [of "rev ?ds"] comma_not_digit [of "nat \<bar>n\<bar>"] by auto
  also have "\<dots> \<longleftrightarrow> 1000 \<le> \<bar>n\<bar>"
    by (simp only: length_js_nat_string_le) auto
  finally show ?thesis .
qed

section \<open>Properties\<close>

text \<open>
  C26. The library grid and the Up Next list show the same count differently: the
  card's count carries a thousands separator exactly when the count has four digits
  or more, and the Up Next entry's \<^verbatim>\<open>{video.views} views\<close> never does (a video
  with 1200 views is \<open>1,200\<close> on its card and \<open>1200 views\<close> beside the player).
\<close>

theorem card_and_up_next_counts:
  "(CHR '','' \<in> set (card_views (video_card v)) \<longleftrightarrow> 1000 \<le> \<bar>views v\<bar>) \<and>
   CHR '','' \<notin> set (entry_views (up_next_item v))"
  using comma_in_to_locale_string [of "views v"] comma_not_digit [of "nat \<bar>views v\<bar>"]
  by (auto simp: video_card_def up_next_item_def js_int_string_def)

end
