(* ===== verification/Gemini_Service.thy ===== *)
theory Gemini_Service
  imports Types Js_String
begin

text \<open>
  \<^verbatim>\<open>src/services/geminiService.ts\<close>: \<^verbatim>\<open>getAiClient\<close> reads the API key and throws
  when it is missing; \<^verbatim>\<open>generateVideoMetadata\<close> builds one request for the remote
  model, awaits it, parses the returned text as JSON and falls back to a fixed object
  on any failure inside its \<^verbatim>\<open>try\<close>. The remote model is outside the program: it is
  the parameter \<open>service\<close>, any function from the key and the request to a response
  (a rejected call or the response's \<^verbatim>\<open>text\<close>), and \<^verbatim>\<open>JSON.parse\<close> with the cast
  \<^verbatim>\<open>as VideoMetadata\<close> is the parameter \<open>parse\<close> (\<open>None\<close> for a syntax error). A
  thrown error is \<open>Inl\<close>, the awaited value \<open>Inr\<close>.
\<close>

section \<open>Definitions\<close>

datatype service_error = Api_key_missing
  \<comment> \<open>\<^verbatim>\<open>new Error("API Key is missing. Please check your configuration.")\<close>\<close>

record inline_part =
  mime_type :: js_string
  inline_payload :: "js_string option"   \<comment> \<open>\<^verbatim>\<open>data: base64Image\<close>, possibly \<^verbatim>\<open>undefined\<close>\<close>

record gemini_request =
  req_model :: js_string
  req_image :: inline_part
  req_prompt :: js_string
  req_response_mime :: js_string
  req_required :: "js_string list"

datatype ai_response =
    Ai_throws                      \<comment> \<open>\<^verbatim>\<open>generateContent\<close> rejects (network, quota, \<dots>)\<close>
  | Ai_text "js_string option"     \<comment> \<open>it resolves; \<^verbatim>\<open>response.text\<close>, \<open>None\<close> for \<^verbatim>\<open>undefined\<close>\<close>

text \<open>\<^verbatim>\<open>getAiClient\<close>: the client is determined by its key; a falsy key throws.\<close>

definition get_ai_client :: "js_string option \<Rightarrow> service_error + js_string" where
  "get_ai_client api_key =
     (case api_key of
        None \<Rightarrow> Inl Api_key_missing
      | Some k \<Rightarrow> if js_truthy k then Inr k else Inl Api_key_missing)"

definition metadata_prompt :: js_string where
  "metadata_prompt =
     ''Analyze this image frame from a video. '' @ [CHR 0x0A] @
     ''  Create a catchy, SEO-friendly title, a compelling short description (max 2 sentences), '' @
     [CHR 0x0A] @ ''  and a list of 5 relevant tags (lowercase, single words).''"

definition metadata_request :: "js_string option \<Rightarrow> gemini_request" where
  "metadata_request base64Image =
     \<lparr>req_model = ''gemini-2.5-flash'',
      req_image = \<lparr>mime_type = ''image/jpeg'', inline_payload = base64Image\<rparr>,
      req_prompt = metadata_prompt,
      req_response_mime = ''application/json'',
      req_required = [''title'', ''description'', ''tags'']\<rparr>"

definition fallback_metadata :: video_metadata where
  "fallback_metadata =
     \<lparr>title = ''Uploaded Video'', description = ''No description generated.'',
      tags = [''video'', ''upload'']\<rparr>"

text \<open>
  The body of the \<^verbatim>\<open>try\<close>: \<^verbatim>\<open>if (!text) throw\<close>, then \<^verbatim>\<open>JSON.parse\<close>; every
  throw lands in the \<^verbatim>\<open>catch\<close>, which returns the fallback.
\<close>

definition interpret_response ::
  "(js_string \<Rightarrow> video_metadata option) \<Rightarrow> ai_response \<Rightarrow> video_metadata" where
  "interpret_response parse r =
     (case r of
        Ai_throws \<Rightarrow> fallback_metadata
      | Ai_text None \<Rightarrow> fallback_metadata
      | Ai_text (Some text) \<Rightarrow>
          if \<not> js_truthy text then fallback_metadata
          else (case parse text of None \<Rightarrow> fallback_metadata | Some md \<Rightarrow> md))"

definition generate_video_metadata ::
  "js_string option \<Rightarrow> (js_string \<Rightarrow> gemini_request \<Rightarrow> ai_response) \<Rightarrow>
   (js_string \<Rightarrow> video_metadata option) \<Rightarrow> js_string option \<Rightarrow> service_error + video_metadata" where
  "generate_video_metadata api_key service parse base64Image =
     (case get_ai_client api_key of
        Inl e \<Rightarrow> Inl e
      | Inr k \<Rightarrow> Inr (interpret_response parse (service k (metadata_request base64Image))))"

text \<open>A response is a failure when the \<^verbatim>\<open>try\<close> block throws on it.\<close>

definition failed_response :: "(js_string \<Rightarrow> video_metadata option) \<Rightarrow> ai_response \<Rightarrow> bool" where
  "failed_response parse r \<longleftrightarrow>
     (case r of
        Ai_throws \<Rightarrow> True
      | Ai_text None \<Rightarrow> True
      | Ai_text (Some text) \<Rightarrow> \<not> js_truthy text \<or> parse text = None)"

declare get_ai_client_def [handler_defs] generate_video_metadata_def [handler_defs]
  interpret_response_def [handler_defs]

section \<open>Properties\<close>

lemma get_ai_client_Inr: "get_ai_client api_key = Inr k \<longleftrightarrow> api_key = Some k \<and> js_truthy k"
  by (auto simp: get_ai_client_def split: option.splits)

lemma interpret_failed: "failed_response parse r \<Longrightarrow> interpret_response parse r = fallback_metadata"
  by (auto simp: failed_response_def interpret_response_def split: ai_response.splits option.splits)

text \<open>
  C10. \<^verbatim>\<open>generateVideoMetadata\<close> throws exactly when the API key is missing or
  empty, whatever the remote model would answer: the key is read by \<^verbatim>\<open>getAiClient\<close>
  before the \<^verbatim>\<open>try\<close>, so this error is not replaced by the fallback object.
\<close>

theorem generate_missing_key:
  "generate_video_metadata api_key service parse b = Inl Api_key_missing \<longleftrightarrow>
   api_key = None \<or> api_key = Some []"
  by (auto simp: generate_video_metadata_def get_ai_client_def js_truthy_def
           split: option.splits sum.splits)

text \<open>
  C11. With a key present, every failure of the exchange (the call rejects, the
  response has no text or empty text, or the text is not JSON) yields exactly the
  fallback object \<open>Uploaded Video\<close> / \<open>No description generated.\<close> /
  \<open>[video, upload]\<close>, and nothing is thrown.
\<close>

theorem generate_failure_fallback:
  assumes "js_truthy k" and "failed_response parse (service k (metadata_request b))"
  shows "generate_video_metadata (Some k) service parse b = Inr fallback_metadata"
  using assms interpret_failed by (simp add: generate_video_metadata_def get_ai_client_def)

lemma generate_failure_fallback_witness:
  "generate_video_metadata (Some ''key'') (\<lambda>_ _. Ai_throws) (\<lambda>_. None) (Some ''QUJD'') =
   Inr \<lparr>title = ''Uploaded Video'', description = ''No description generated.'',
        tags = [''video'', ''upload'']\<rparr>"
proof -
  have "js_truthy ''key''" by (simp add: js_truthy_def)
  moreover have "failed_response (\<lambda>_. None) ((\<lambda>_ _. Ai_throws) ''key'' (metadata_request (Some ''QUJD'')))"
    by (simp add: failed_response_def)
  ultimately show ?thesis
    using generate_failure_fallback [of "''key''" "\<lambda>_. None" "\<lambda>_ _. Ai_throws" "Some ''QUJD''"]
    by (simp add: fallback_metadata_def)
qed

text \<open>
  C12. With a key present, when the model answers with non-empty text that parses,
  the result is the parsed object, unchanged.
\<close>

theorem generate_success:
  assumes "js_truthy k" and "service k (metadata_request b) = Ai_text (Some t)"
    and "js_truthy t" and "parse t = Some md"
  shows "generate_video_metadata (Some k) service parse b = Inr md"
  using assms by (simp add: generate_video_metadata_def get_ai_client_def interpret_response_def)

lemma generate_success_witness:
  "generate_video_metadata (Some ''key'') (\<lambda>_ _. Ai_text (Some ''{}''))
     (\<lambda>_. Some \<lparr>title = ''Cat'', description = ''A cat.'', tags = [''cat'']\<rparr>) (Some ''QUJD'') =
   Inr \<lparr>title = ''Cat'', description = ''A cat.'', tags = [''cat'']\<rparr>"
  using generate_success [of "''key''" "\<lambda>_ _. Ai_text (Some ''{}'')" "Some ''QUJD''" "''{}''"
      "\<lambda>_. Some \<lparr>title = ''Cat'', description = ''A cat.'', tags = [''cat'']\<rparr>"]
  by (simp add: js_truthy_def)

end
