(* ===== verification/Upload_Modal.thy ===== *)
theory Upload_Modal
  imports Video_Utils Gemini_Service
begin

text \<open>
  \<^verbatim>\<open>src/components/UploadModal.tsx\<close>. The component's \<^verbatim>\<open>useState\<close> hooks are the
  record \<open>modal_state\<close>. Each handler is split where it awaits: the synchronous part
  is a function that returns the new state and the continuations it leaves pending
  (\<open>modal_task\<close>), and the code after the \<^verbatim>\<open>await\<close> is a second function applied
  when the awaited promise settles (\<open>extract_done\<close>, \<open>generate_done\<close>). What a
  handler hands to the parent (\<^verbatim>\<open>onUpload\<close>, \<^verbatim>\<open>onClose\<close>, \<^verbatim>\<open>alert\<close>) is part of
  its result. The hooks keep their values while the modal is closed: the component
  stays mounted and only renders \<^verbatim>\<open>null\<close>, so a continuation that runs after the
  modal closed still writes them.
\<close>

section \<open>State\<close>

text \<open>A \<^verbatim>\<open>File\<close> from the picker: its name and what the decoder reads from it.\<close>

record js_file =
  file_name :: js_string
  file_media :: media

record modal_state =
  chosen_file :: "js_file option"   \<comment> \<open>the state \<^verbatim>\<open>file\<close> (a keyword of Isabelle)\<close>
  preview_url :: "url option"
  thumbnail_base64 :: "js_string option"
  is_generating :: bool
  title_input :: js_string
  description_input :: js_string
  tags_input :: js_string

definition initial_modal :: modal_state where
  "initial_modal =
     \<lparr>chosen_file = None, preview_url = None, thumbnail_base64 = None, is_generating = False,
      title_input = [], description_input = [], tags_input = []\<rparr>"

text \<open>The continuations a handler leaves behind at its \<^verbatim>\<open>await\<close>.\<close>

datatype modal_task =
    Extract_frame js_file          \<comment> \<open>\<^verbatim>\<open>await extractFrameFromVideo(selectedFile)\<close>\<close>
  | Generate "js_string option"    \<comment> \<open>\<^verbatim>\<open>await generateVideoMetadata(cleanData)\<close>\<close>

section \<open>Helpers\<close>

text \<open>The truthiness of a nullable string state (\<^verbatim>\<open>!thumbnailBase64\<close>, \<^verbatim>\<open>!previewUrl\<close>).\<close>

definition opt_truthy :: "js_string option \<Rightarrow> bool" where
  "opt_truthy v = (case v of None \<Rightarrow> False | Some s \<Rightarrow> js_truthy s)"

text \<open>\<^verbatim>\<open>tags.split(',').map(t => t.trim()).filter(Boolean)\<close>\<close>

definition parse_tags :: "js_string \<Rightarrow> js_string list" where
  "parse_tags s = filter js_truthy (map js_trim (js_split (CHR '','') s))"

text \<open>\<^verbatim>\<open>metadata.tags.join(', ')\<close>\<close>

definition join_tags :: "js_string list \<Rightarrow> js_string" where
  "join_tags ts = js_join '', '' ts"

text \<open>A tag as the form publishes it: non-empty, trimmed, without a comma.\<close>

definition well_formed_tag :: "js_string \<Rightarrow> bool" where
  "well_formed_tag t \<longleftrightarrow> t \<noteq> [] \<and> trimmed t \<and> CHR '','' \<notin> set t"

definition placeholder_thumbnail :: url where
  "placeholder_thumbnail = ''https://picsum.photos/640/360''"

definition generate_alert :: js_string where
  "generate_alert = ''Failed to generate metadata. Check your API key.''"

section \<open>Handlers\<close>

text \<open>
  \<^verbatim>\<open>handleFileChange\<close> up to its \<^verbatim>\<open>await\<close>: \<open>selected\<close> is
  \<^verbatim>\<open>e.target.files?.[0]\<close>, \<open>u\<close> the URL \<^verbatim>\<open>URL.createObjectURL\<close> returns.
\<close>

definition handle_file_change ::
  "js_file option \<Rightarrow> url \<Rightarrow> modal_state \<Rightarrow> modal_state \<times> modal_task list" where
  "handle_file_change selected u s =
     (case selected of
        None \<Rightarrow> (s, [])
      | Some f \<Rightarrow> (s\<lparr>chosen_file := Some f, preview_url := Some u\<rparr>, [Extract_frame f]))"

text \<open>After the \<^verbatim>\<open>await\<close>: store the frame, or log the error and keep the state.\<close>

definition extract_done :: "capture_error + js_string \<Rightarrow> modal_state \<Rightarrow> modal_state" where
  "extract_done r s = (case r of Inl _ \<Rightarrow> s | Inr frame \<Rightarrow> s\<lparr>thumbnail_base64 := Some frame\<rparr>)"

text \<open>\<^verbatim>\<open>handleGenerateMetadata\<close> up to its \<^verbatim>\<open>await\<close>.\<close>

definition handle_generate_metadata :: "modal_state \<Rightarrow> modal_state \<times> modal_task list" where
  "handle_generate_metadata s =
     (if \<not> opt_truthy (thumbnail_base64 s) then (s, [])
      else (s\<lparr>is_generating := True\<rparr>,
            [Generate (cleanBase64 (the (thumbnail_base64 s)))]))"

text \<open>
  After the \<^verbatim>\<open>await\<close>: fill the form from the metadata, or alert; the
  \<^verbatim>\<open>finally\<close> clears \<^verbatim>\<open>isGenerating\<close> on both paths. The second component is the
  list of alerts shown.
\<close>

definition generate_done ::
  "service_error + video_metadata \<Rightarrow> modal_state \<Rightarrow> modal_state \<times> js_string list" where
  "generate_done r s =
     (case r of
        Inr md \<Rightarrow> (s\<lparr>title_input := title md, description_input := description md,
                     tags_input := join_tags (tags md), is_generating := False\<rparr>, [])
      | Inl _ \<Rightarrow> (s\<lparr>is_generating := False\<rparr>, [generate_alert]))"

text \<open>\<^verbatim>\<open>handleClose\<close>, without the call of \<^verbatim>\<open>onClose\<close> (the parent's part).\<close>

definition handle_close :: "modal_state \<Rightarrow> modal_state" where
  "handle_close s =
     s\<lparr>chosen_file := None, preview_url := None, thumbnail_base64 := None,
       title_input := [], description_input := [], tags_input := []\<rparr>"

text \<open>The \<^verbatim>\<open>newVideo\<close> object of \<^verbatim>\<open>handleSubmit\<close>; \<open>vid\<close> is the random id and \<open>now\<close> \<^verbatim>\<open>Date.now()\<close>.\<close>

definition new_video :: "js_string \<Rightarrow> int \<Rightarrow> js_file \<Rightarrow> url \<Rightarrow> modal_state \<Rightarrow> video" where
  "new_video vid now f u s =
     \<lparr>video_id = vid, url = u,
      thumbnailUrl = (if opt_truthy (thumbnail_base64 s) then the (thumbnail_base64 s)
                      else placeholder_thumbnail),
      metadata = \<lparr>title = js_or (title_input s) (file_name f),
                  description = js_or (description_input s) ''No description provided.'',
                  tags = parse_tags (tags_input s)\<rparr>,
      createdAt = now, views = 0, likes = 0, author = ''You''\<rparr>"

text \<open>
  \<^verbatim>\<open>handleSubmit\<close>: nothing without a file and a preview URL; otherwise the new
  video for \<^verbatim>\<open>onUpload\<close> and the state after \<^verbatim>\<open>handleClose\<close>.
\<close>

definition handle_submit :: "js_string \<Rightarrow> int \<Rightarrow> modal_state \<Rightarrow> modal_state \<times> video option" where
  "handle_submit vid now s =
     (case (chosen_file s, preview_url s) of
        (Some f, Some u) \<Rightarrow>
          if js_truthy u then (handle_close s, Some (new_video vid now f u s)) else (s, None)
      | _ \<Rightarrow> (s, None))"

declare handle_file_change_def [handler_defs] extract_done_def [handler_defs]
  handle_generate_metadata_def [handler_defs] generate_done_def [handler_defs]
  handle_close_def [handler_defs] handle_submit_def [handler_defs]

section \<open>Lemmas on tags\<close>

lemma js_split_join_tags:
  "ts \<noteq> [] \<Longrightarrow> \<forall>t \<in> set ts. CHR '','' \<notin> set t \<Longrightarrow>
   js_split (CHR '','') (js_join '', '' ts) = hd ts # map (\<lambda>t. CHR '' '' # t) (tl ts)"
proof (induction ts)
  case Nil
  then show ?case by simp
next
  case (Cons x xs)
  show ?case
  proof (cases xs)
    case Nil
    with Cons.prems show ?thesis by simp
  next
    case (Cons y zs)
    with Cons.prems Cons.IH
    have IH: "js_split (CHR '','') (js_join '', '' (y # zs)) = y # map (\<lambda>t. CHR '' '' # t) zs"
      by simp
    have "js_join '', '' (x # y # zs) = x @ CHR '','' # CHR '' '' # js_join '', '' (y # zs)"
      by simp
    moreover have "CHR '','' \<notin> set x" using Cons.prems by simp
    ultimately show ?thesis
      using IH \<open>xs = y # zs\<close> by (simp add: js_split_append_sep Let_def)
  qed
qed

lemma js_trim_space_Cons: "js_trim (CHR '' '' # t) = js_trim t"
  using js_trim_leading_space [of "[CHR '' '']" t] by (simp add: is_js_space_def)

lemma parse_tags_well_formed_all: "list_all well_formed_tag (parse_tags s)"
proof -
  have "well_formed_tag (js_trim w)" if "w \<in> set (js_split (CHR '','') s)" and "js_truthy (js_trim w)" for w
    using that js_split_parts_no_sep [OF that(1)] set_js_trim [of w]
    by (auto simp: well_formed_tag_def js_truthy_def)
  then show ?thesis by (auto simp: parse_tags_def list_all_iff)
qed

lemma handle_close_initial: "handle_close s = initial_modal\<lparr>is_generating := is_generating s\<rparr>"
  by (simp add: handle_close_def initial_modal_def)

section \<open>Lemmas on the handlers\<close>

lemma handle_submit_Some:
  "handle_submit vid now s = (m, Some v) \<Longrightarrow>
   \<exists>f u. chosen_file s = Some f \<and> preview_url s = Some u \<and> js_truthy u \<and>
     m = handle_close s \<and> v = new_video vid now f u s"
  by (auto simp: handle_submit_def split: option.splits if_splits)

lemma new_video_upload_shape:
  "author (new_video vid now f u s) = ''You'' \<and> views (new_video vid now f u s) = 0 \<and>
   likes (new_video vid now f u s) = 0 \<and>
   list_all well_formed_tag (tags (metadata (new_video vid now f u s)))"
  by (simp add: new_video_def parse_tags_well_formed_all)

lemma url_new_video [simp]: "url (new_video vid now f u s) = u"
  by (simp add: new_video_def)

section \<open>Properties of the upload form\<close>

text \<open>
  C13. Tags round-trip through the form: when the metadata service returns tags that
  are non-empty, trimmed and comma-free, writing them into the tags field with
  \<^verbatim>\<open>join(', ')\<close> and reading the field back at publication with
  \<^verbatim>\<open>split(',').map(trim).filter(Boolean)\<close> gives the same list.
\<close>

theorem parse_join_tags:
  assumes "list_all well_formed_tag ts"
  shows "parse_tags (join_tags ts) = ts"
proof (cases ts)
  case Nil
  then show ?thesis by (simp add: parse_tags_def join_tags_def js_trim_def js_truthy_def)
next
  case (Cons t us)
  with assms have wf: "well_formed_tag t" "\<forall>u \<in> set us. well_formed_tag u"
    by (simp_all add: list_all_iff)
  then have nc: "\<forall>x \<in> set (t # us). CHR '','' \<notin> set x"
    by (auto simp: well_formed_tag_def)
  have split: "js_split (CHR '','') (js_join '', '' (t # us)) = t # map (\<lambda>x. CHR '' '' # x) us"
    using js_split_join_tags [OF _ nc] by simp
  have trim: "map js_trim (t # map (\<lambda>x. CHR '' '' # x) us) = t # us"
    using wf by (auto simp: js_trim_space_Cons js_trim_trimmed well_formed_tag_def intro: map_idI)
  have keep: "filter js_truthy (t # us) = t # us"
    using wf by (auto simp: well_formed_tag_def js_truthy_def)
  show ?thesis
    using split trim keep Cons by (simp add: parse_tags_def join_tags_def)
qed

lemma parse_join_tags_witness:
  "parse_tags (join_tags [''cat'', ''funny video'']) = [''cat'', ''funny video'']"
proof -
  have "list_all well_formed_tag [''cat'', ''funny video'']"
    by (simp add: well_formed_tag_def trimmed_def is_js_space_def)
  then show ?thesis by (rule parse_join_tags)
qed

text \<open>
  C14. Publishing with a file and a preview URL hands the parent a video with the
  given id and timestamp, the preview URL, no views or likes, author \<open>You\<close>, the
  captured frame as thumbnail when there is one and the placeholder otherwise, the
  typed title or else the file name, the typed description or else
  \<open>No description provided.\<close>, and well-formed tags; the form is then reset to its
  initial state except for \<open>isGenerating\<close>.
\<close>

theorem handle_submit_publishes:
  assumes "chosen_file s = Some f" and "preview_url s = Some u" and "js_truthy u"
  shows "\<exists>v. handle_submit vid now s = (initial_modal\<lparr>is_generating := is_generating s\<rparr>, Some v) \<and>
     video_id v = vid \<and> url v = u \<and> createdAt v = now \<and> views v = 0 \<and> likes v = 0 \<and>
     author v = ''You'' \<and>
     thumbnailUrl v = (case thumbnail_base64 s of
                         Some t \<Rightarrow> if t = [] then placeholder_thumbnail else t
                       | None \<Rightarrow> placeholder_thumbnail) \<and>
     title (metadata v) = (if title_input s = [] then file_name f else title_input s) \<and>
     description (metadata v) =
       (if description_input s = [] then ''No description provided.'' else description_input s) \<and>
     list_all well_formed_tag (tags (metadata v))"
  using assms parse_tags_well_formed_all [of "tags_input s"]
  by (auto simp: handle_submit_def handle_close_initial new_video_def opt_truthy_def js_or_def
           js_truthy_def split: option.split)

lemma handle_submit_publishes_witness:
  "snd (handle_submit ''abc123'' 1700000000000
     (initial_modal\<lparr>chosen_file := Some \<lparr>file_name = ''clip.mp4'',
        file_media = \<lparr>video_width = 640, video_height = 360, duration = 10\<rparr>\<rparr>,
      preview_url := Some ''blob:1'', tags_input := ''a, ,b''\<rparr>)) \<noteq> None"
proof -
  let ?f = "\<lparr>file_name = ''clip.mp4'', file_media = \<lparr>video_width = 640, video_height = 360, duration = (10::rat)\<rparr>\<rparr>"
  let ?s = "initial_modal\<lparr>chosen_file := Some ?f, preview_url := Some ''blob:1'', tags_input := ''a, ,b''\<rparr>"
  have "chosen_file ?s = Some ?f" "preview_url ?s = Some ''blob:1''" "js_truthy ''blob:1''"
    by (simp_all add: js_truthy_def)
  from handle_submit_publishes [OF this, of "''abc123''" 1700000000000] show ?thesis by auto
qed

text \<open>
  C15. Publishing without a file, or without a (non-empty) preview URL, does
  nothing: no video is handed on and the form keeps its state.
\<close>

theorem handle_submit_guard:
  "chosen_file s = None \<or> \<not> opt_truthy (preview_url s) \<Longrightarrow> handle_submit vid now s = (s, None)"
  by (auto simp: handle_submit_def opt_truthy_def split: option.split)

lemma handle_submit_guard_witness: "handle_submit ''id'' 0 initial_modal = (initial_modal, None)"
  using handle_submit_guard [of initial_modal] by (simp add: initial_modal_def)

end
