(* ===== verification/Constants.thy ===== *)
theory Constants
  imports Upload_Modal
begin

text \<open>
  \<^verbatim>\<open>src/constants.ts\<close>: the three sample videos the library starts with and the
  seven days of sample analytics. \<^verbatim>\<open>Date.now()\<close>, read when the module loads, is
  the parameter \<open>now\<close>. The lemmas record what the rest of the development needs of
  this data: the ids are distinct and every tag is well formed in the sense of the
  upload form.
\<close>

section \<open>Definitions\<close>

definition mock_videos :: "int \<Rightarrow> video list" where
  "mock_videos now =
    [\<lparr>video_id = ''1'',
      url = ''https://storage.googleapis.com/gtv-videos-bucket/sample/BigBuckBunny.mp4'',
      thumbnailUrl = ''https://picsum.photos/seed/bunny/640/360'',
      metadata = \<lparr>title = ''Big Buck Bunny'',
        description = ''A classic short film about a giant rabbit with a heart of gold and a temper to match.'',
        tags = [''animation'', ''short'', ''funny'']\<rparr>,
      createdAt = now - 10000000, views = 12543, likes = 842, author = ''Blender Foundation''\<rparr>,
     \<lparr>video_id = ''2'',
      url = ''https://storage.googleapis.com/gtv-videos-bucket/sample/ElephantsDream.mp4'',
      thumbnailUrl = ''https://picsum.photos/seed/elephant/640/360'',
      metadata = \<lparr>title = ''Elephants Dream'',
        description = ''The first open movie from the Blender Institute. A journey into the machine.'',
        tags = [''sci-fi'', ''surreal'', ''3d'']\<rparr>,
      createdAt = now - 20000000, views = 8432, likes = 521, author = ''Orange Team''\<rparr>,
     \<lparr>video_id = ''3'',
      url = ''https://storage.googleapis.com/gtv-videos-bucket/sample/ForBiggerBlazes.mp4'',
      thumbnailUrl = ''https://picsum.photos/seed/fire/640/360'',
      metadata = \<lparr>title = ''For Bigger Blazes'',
        description = ''High definition footage of fire and flames, perfect for background visuals.'',
        tags = [''nature'', ''fire'', ''4k'']\<rparr>,
      createdAt = now - 5000000, views = 3201, likes = 150, author = ''Google''\<rparr>]"

definition mock_analytics :: "analytics_data list" where
  "mock_analytics =
    [\<lparr>day = ''Mon'', day_views = 1200, day_likes = 120\<rparr>,
     \<lparr>day = ''Tue'', day_views = 1900, day_likes = 180\<rparr>,
     \<lparr>day = ''Wed'', day_views = 1500, day_likes = 140\<rparr>,
     \<lparr>day = ''Thu'', day_views = 2400, day_likes = 240\<rparr>,
     \<lparr>day = ''Fri'', day_views = 3100, day_likes = 350\<rparr>,
     \<lparr>day = ''Sat'', day_views = 3800, day_likes = 410\<rparr>,
     \<lparr>day = ''Sun'', day_views = 4200, day_likes = 450\<rparr>]"

section \<open>Facts about the sample data\<close>

lemma mock_videos_ids: "map video_id (mock_videos now) = [''1'', ''2'', ''3'']"
  by (simp add: mock_videos_def)

lemma distinct_mock_video_ids: "distinct (map video_id (mock_videos now))"
  by (simp add: mock_videos_ids)

lemma mock_videos_tags_well_formed:
  "list_all (\<lambda>v. list_all well_formed_tag (tags (metadata v))) (mock_videos now)"
  by (simp add: mock_videos_def well_formed_tag_def trimmed_def is_js_space_def)

end
