(* ===== verification/App.thy ===== *)
theory App
  imports Constants
begin

text \<open>
  \<^verbatim>\<open>src/App.tsx\<close>: the four \<^verbatim>\<open>useState\<close> hooks of the root component as the record
  \<open>app_state\<close>, one function per handler (the named ones and the inline
  \<^verbatim>\<open>onClick\<close> arrows of the navigation bar, the tabs, the back button and the
  Up Next entries), the Up Next filter, and the choice of what the main area shows
  (\<open>main_view\<close>). The analytics panel's three summary figures are literals of the
  markup and appear as such.
\<close>

section \<open>State and handlers\<close>

datatype tab = Library | Analytics

record app_state =
  videos :: "video list"
  is_upload_modal_open :: bool
  selected_video :: "video option"
  active_tab :: tab

definition initial_app :: "int \<Rightarrow> app_state" where
  "initial_app now =
     \<lparr>videos = mock_videos now, is_upload_modal_open = False, selected_video = None,
      active_tab = Library\<rparr>"

text \<open>\<^verbatim>\<open>handleUpload\<close>: \<^verbatim>\<open>setVideos([newVideo, ...videos])\<close>.\<close>

definition handle_upload :: "video \<Rightarrow> app_state \<Rightarrow> app_state" where
  "handle_upload v s = s\<lparr>videos := v # videos s\<rparr>"

text \<open>\<^verbatim>\<open>handleVideoClick\<close>, and the \<^verbatim>\<open>onClick\<close> of an Up Next entry, which does the same.\<close>

definition handle_video_click :: "video \<Rightarrow> app_state \<Rightarrow> app_state" where
  "handle_video_click v s = s\<lparr>selected_video := Some v\<rparr>"

text \<open>The logo: back to the library tab with nothing selected.\<close>

definition click_logo :: "app_state \<Rightarrow> app_state" where
  "click_logo s = s\<lparr>selected_video := None, active_tab := Library\<rparr>"

definition open_upload_modal :: "app_state \<Rightarrow> app_state" where
  "open_upload_modal s = s\<lparr>is_upload_modal_open := True\<rparr>"

text \<open>The \<^verbatim>\<open>onClose\<close> passed to the modal.\<close>

definition close_upload_modal :: "app_state \<Rightarrow> app_state" where
  "close_upload_modal s = s\<lparr>is_upload_modal_open := False\<rparr>"

definition back_to_library :: "app_state \<Rightarrow> app_state" where
  "back_to_library s = s\<lparr>selected_video := None\<rparr>"

definition select_tab :: "tab \<Rightarrow> app_state \<Rightarrow> app_state" where
  "select_tab t s = s\<lparr>active_tab := t\<rparr>"

section \<open>What is shown\<close>

text \<open>\<^verbatim>\<open>videos.filter(v => v.id !== selectedVideo.id)\<close>\<close>

definition up_next :: "video \<Rightarrow> video list \<Rightarrow> video list" where
  "up_next sel vs = filter (\<lambda>v. video_id v \<noteq> video_id sel) vs"

definition analytics_summary :: "(js_string \<times> js_string) list" where
  "analytics_summary = [(''Total Views'', ''14.2K''), (''Total Likes'', ''845''), (''Watch Time'', ''48.5h'')]"

datatype main_view =
    Player_view video "video list"                                  \<comment> \<open>the video and Up Next\<close>
  | Library_grid "video list"                                       \<comment> \<open>one \<^verbatim>\<open>VideoCard\<close> each\<close>
  | Analytics_panel "(js_string \<times> js_string) list" "analytics_data list"

text \<open>\<^verbatim>\<open>selectedVideo ? player : activeTab === 'library' ? grid : analytics\<close>\<close>

definition main_view :: "app_state \<Rightarrow> main_view" where
  "main_view s =
     (case selected_video s of
        Some v \<Rightarrow> Player_view v (up_next v (videos s))
      | None \<Rightarrow> if active_tab s = Library then Library_grid (videos s)
                else Analytics_panel analytics_summary mock_analytics)"

declare handle_upload_def [handler_defs] handle_video_click_def [handler_defs]
  click_logo_def [handler_defs] open_upload_modal_def [handler_defs]
  close_upload_modal_def [handler_defs] back_to_library_def [handler_defs]
  select_tab_def [handler_defs]

section \<open>Lemmas\<close>

lemma set_up_next: "set (up_next sel vs) = {v \<in> set vs. video_id v \<noteq> video_id sel}"
  by (auto simp: up_next_def)

lemma main_view_Library_grid:
  "main_view a = Library_grid vs \<Longrightarrow> vs = videos a \<and> selected_video a = None"
  by (auto simp: main_view_def split: option.splits if_splits)

lemma main_view_Player_view:
  "main_view a = Player_view v vs \<Longrightarrow> selected_video a = Some v \<and> vs = up_next v (videos a)"
  by (auto simp: main_view_def split: option.splits if_splits)

end
