(* ===== verification/System.thy ===== *)
theory System
  imports App
begin

text \<open>
  The running application: the root component of \<^verbatim>\<open>src/App.tsx\<close> with the
  \<^verbatim>\<open>UploadModal\<close> it always renders, the continuations the modal's handlers left
  at an \<^verbatim>\<open>await\<close>, the browser's counter of object URLs and the alerts shown. One
  step is one event of the single-threaded event loop: a click or keystroke the
  rendered page accepts, or the settlement of one pending promise, in any order.
  \<open>sys_exec\<close> runs one event and is \<open>None\<close> when the page cannot deliver it (the
  element is not rendered, or the modal's full-screen overlay covers it).
  Nondeterminism is carried by the event: which pending continuation runs next, the
  callbacks the media element fires for a capture, and the remote model's answer.
  The API key and \<^verbatim>\<open>JSON.parse\<close> are fixed parameters of a run.
\<close>

section \<open>State and events\<close>

record sys =
  app :: app_state
  modal :: modal_state
  tasks :: "modal_task list"
  next_blob :: nat
  alerts :: "js_string list"

text \<open>The URL \<^verbatim>\<open>URL.createObjectURL\<close> returns the \<open>n\<close>-th time: opaque and fresh.\<close>

definition blob_url :: "nat \<Rightarrow> url" where
  "blob_url n = ''blob:'' @ js_nat_string n"

definition initial_sys :: "int \<Rightarrow> sys" where
  "initial_sys now =
     \<lparr>app = initial_app now, modal = initial_modal, tasks = [], next_blob = 0, alerts = []\<rparr>"

datatype sys_event =
    Click_logo | Click_upload | Click_card video | Click_up_next video | Click_back
  | Click_tab tab
  | Choose_file "js_file option" | Click_generate
  | Type_title js_string | Type_description js_string | Type_tags js_string
  | Click_publish js_string int | Click_cancel
  | Extraction_settles nat bool nat "media_event list"
      \<comment> \<open>continuation \<open>i\<close> resumes; the capture had a context or not, got URL
          handle \<open>h\<close>, and the element fired these callbacks\<close>
  | Generation_settles nat ai_response
      \<comment> \<open>continuation \<open>i\<close> resumes; the remote model answered so\<close>

text \<open>
  What an \<^verbatim>\<open>await\<close> of \<^verbatim>\<open>extractFrameFromVideo\<close> receives after the element
  fired the callbacks \<open>es\<close>: \<open>None\<close> while the promise is still pending (or the
  callbacks are impossible), otherwise the value or the error.
\<close>

definition capture_settlement ::
  "bool \<Rightarrow> nat \<Rightarrow> media \<Rightarrow> media_event list \<Rightarrow> (capture_error + js_string) option" where
  "capture_settlement ctx_ok h m es =
     (case capture_run (extract_frame_from_video ctx_ok h m) es of
        None \<Rightarrow> None
      | Some st \<Rightarrow> (case outcome st of
                     Pending \<Rightarrow> None
                   | Resolved d \<Rightarrow> Some (Inr d)
                   | Rejected e \<Rightarrow> Some (Inl e)))"

definition modal_open :: "sys \<Rightarrow> bool" where
  "modal_open s \<longleftrightarrow> is_upload_modal_open (app s)"

text \<open>The form (generate button, fields, publish button) is rendered once a file is chosen.\<close>

definition form_shown :: "sys \<Rightarrow> bool" where
  "form_shown s \<longleftrightarrow> modal_open s \<and> chosen_file (modal s) \<noteq> None"

definition set_app :: "app_state \<Rightarrow> sys \<Rightarrow> sys option" where
  "set_app a s = Some (s\<lparr>app := a\<rparr>)"

fun sys_exec ::
  "js_string option \<Rightarrow> (js_string \<Rightarrow> video_metadata option) \<Rightarrow> sys \<Rightarrow> sys_event \<Rightarrow> sys option" where
  "sys_exec key parse s Click_logo =
     (if modal_open s then None else set_app (click_logo (app s)) s)"
| "sys_exec key parse s Click_upload =
     (if modal_open s then None else set_app (open_upload_modal (app s)) s)"
| "sys_exec key parse s (Click_card v) =
     (if modal_open s then None
      else case main_view (app s) of
             Library_grid vs \<Rightarrow> if v \<in> set vs then set_app (handle_video_click v (app s)) s else None
           | _ \<Rightarrow> None)"
| "sys_exec key parse s (Click_up_next v) =
     (if modal_open s then None
      else case main_view (app s) of
             Player_view _ vs \<Rightarrow> if v \<in> set vs then set_app (handle_video_click v (app s)) s else None
           | _ \<Rightarrow> None)"
| "sys_exec key parse s Click_back =
     (if modal_open s \<or> selected_video (app s) = None then None
      else set_app (back_to_library (app s)) s)"
| "sys_exec key parse s (Click_tab t) =
     (if modal_open s \<or> selected_video (app s) \<noteq> None then None
      else set_app (select_tab t (app s)) s)"
| "sys_exec key parse s (Choose_file sel) =
     (if \<not> modal_open s \<or> chosen_file (modal s) \<noteq> None then None
      else let (m, ts) = handle_file_change sel (blob_url (next_blob s)) (modal s)
           in Some (s\<lparr>modal := m, tasks := tasks s @ ts,
                      next_blob := (if sel = None then next_blob s else Suc (next_blob s))\<rparr>))"
| "sys_exec key parse s Click_generate =
     (if \<not> form_shown s then None
      else let (m, ts) = handle_generate_metadata (modal s)
           in Some (s\<lparr>modal := m, tasks := tasks s @ ts\<rparr>))"
| "sys_exec key parse s (Type_title x) =
     (if \<not> form_shown s then None else Some (s\<lparr>modal := (modal s)\<lparr>title_input := x\<rparr>\<rparr>))"
| "sys_exec key parse s (Type_description x) =
     (if \<not> form_shown s then None else Some (s\<lparr>modal := (modal s)\<lparr>description_input := x\<rparr>\<rparr>))"
| "sys_exec key parse s (Type_tags x) =
     (if \<not> form_shown s then None else Some (s\<lparr>modal := (modal s)\<lparr>tags_input := x\<rparr>\<rparr>))"
| "sys_exec key parse s (Click_publish vid now) =
     (if \<not> form_shown s then None
      else case handle_submit vid now (modal s) of
             (m, None) \<Rightarrow> Some (s\<lparr>modal := m\<rparr>)
           | (m, Some v) \<Rightarrow>
               Some (s\<lparr>modal := m, app := close_upload_modal (handle_upload v (app s))\<rparr>))"
| "sys_exec key parse s Click_cancel =
     (if \<not> modal_open s then None
      else Some (s\<lparr>modal := handle_close (modal s), app := close_upload_modal (app s)\<rparr>))"
| "sys_exec key parse s (Extraction_settles i ctx_ok h es) =
     (case js_index (tasks s) i of
        Some (Extract_frame f) \<Rightarrow>
          (case capture_settlement ctx_ok h (file_media f) es of
             None \<Rightarrow> None
           | Some r \<Rightarrow> Some (s\<lparr>modal := extract_done r (modal s), tasks := remove_nth i (tasks s)\<rparr>))
      | _ \<Rightarrow> None)"
| "sys_exec key parse s (Generation_settles i resp) =
     (case js_index (tasks s) i of
        Some (Generate d) \<Rightarrow>
          (let (m, al) = generate_done (generate_video_metadata key (\<lambda>_ _. resp) parse d) (modal s)
           in Some (s\<lparr>modal := m, tasks := remove_nth i (tasks s), alerts := alerts s @ al\<rparr>))
      | _ \<Rightarrow> None)"

fun sys_run ::
  "js_string option \<Rightarrow> (js_string \<Rightarrow> video_metadata option) \<Rightarrow> sys \<Rightarrow> sys_event list \<Rightarrow> sys option" where
  "sys_run key parse s [] = Some s"
| "sys_run key parse s (e # es) =
     (case sys_exec key parse s e of None \<Rightarrow> None | Some s' \<Rightarrow> sys_run key parse s' es)"

inductive sys_reach ::
  "js_string option \<Rightarrow> (js_string \<Rightarrow> video_metadata option) \<Rightarrow> int \<Rightarrow> sys \<Rightarrow> bool"
  for key parse now where
  init: "sys_reach key parse now (initial_sys now)"
| step: "sys_reach key parse now s \<Longrightarrow> sys_exec key parse s e = Some s' \<Longrightarrow>
           sys_reach key parse now s'"

text \<open>
  The shape of a video published through the form, what every reachable library
  keeps of the form's fields, and how the \<^verbatim>\<open>isGenerating\<close> flag relates to the
  pending continuations.
\<close>

definition upload_shape :: "video \<Rightarrow> bool" where
  "upload_shape v \<longleftrightarrow> author v = ''You'' \<and> views v = 0 \<and> likes v = 0 \<and>
     list_all well_formed_tag (tags (metadata v))"

definition form_coupled :: "modal_state \<Rightarrow> bool" where
  "form_coupled m \<longleftrightarrow> (chosen_file m = None) = (preview_url m = None) \<and> (\<forall>u. preview_url m = Some u \<longrightarrow> js_truthy u)"

definition generation_pending :: "sys \<Rightarrow> bool" where
  "generation_pending s \<longleftrightarrow> (is_generating (modal s) \<longrightarrow> (\<exists>d. Generate d \<in> set (tasks s)))"

text \<open>
  The object URLs of the published uploads: each is a \<^verbatim>\<open>blob:\<close> URL handed out
  earlier than every newer upload's and than the current preview's.
\<close>

definition upload_urls_fresh :: "int \<Rightarrow> sys \<Rightarrow> bool" where
  "upload_urls_fresh now s \<longleftrightarrow>
     (\<exists>ups ks. videos (app s) = ups @ mock_videos now \<and> map url ups = map blob_url ks \<and>
        sorted_wrt (>) ks \<and> (\<forall>k \<in> set ks. k < next_blob s) \<and>
        (\<forall>u. preview_url (modal s) = Some u \<longrightarrow>
           (\<exists>k. u = blob_url k \<and> k < next_blob s \<and> (\<forall>k' \<in> set ks. k' < k))))"

text \<open>While the dialog is closed no file is chosen, so the next file input is rendered.\<close>

definition closed_form_empty :: "sys \<Rightarrow> bool" where
  "closed_form_empty s \<longleftrightarrow> (\<not> modal_open s \<longrightarrow> chosen_file (modal s) = None)"

section \<open>Runs and reachable states\<close>

lemma sys_run_reach:
  "sys_run key parse s es = Some s' \<Longrightarrow> sys_reach key parse now s \<Longrightarrow> sys_reach key parse now s'"
proof (induction es arbitrary: s)
  case Nil
  then show ?case by simp
next
  case (Cons e es)
  then obtain t where t: "sys_exec key parse s e = Some t" and r: "sys_run key parse t es = Some s'"
    by (auto split: option.splits)
  from Cons.prems(2) t have "sys_reach key parse now t" by (rule sys_reach.step)
  with r show ?case by (rule Cons.IH)
qed

lemma sys_run_initial_reach:
  "sys_run key parse (initial_sys now) es = Some s' \<Longrightarrow> sys_reach key parse now s'"
  using sys_run_reach sys_reach.init by blast

section \<open>Invariants of the running application\<close>

lemma sys_exec_videos:
  "sys_exec key parse s e = Some s' \<Longrightarrow>
   videos (app s') = videos (app s) \<or>
   (\<exists>vid now m v. handle_submit vid now (modal s) = (m, Some v) \<and> videos (app s') = v # videos (app s))"
  by (cases e) (auto simp: handle_upload_def handle_video_click_def click_logo_def
      open_upload_modal_def close_upload_modal_def back_to_library_def select_tab_def
      set_app_def Let_def split: if_splits main_view.splits option.splits prod.splits modal_task.splits)

lemma sys_exec_selected:
  "sys_exec key parse s e = Some s' \<Longrightarrow>
   selected_video (app s') = selected_video (app s) \<or> selected_video (app s') = None \<or>
   (\<exists>v. selected_video (app s') = Some v \<and> v \<in> set (videos (app s)))"
  by (cases e) (auto simp: handle_upload_def handle_video_click_def click_logo_def
      open_upload_modal_def close_upload_modal_def back_to_library_def select_tab_def set_up_next
      set_app_def Let_def dest: main_view_Library_grid main_view_Player_view
      split: if_splits main_view.splits option.splits prod.splits modal_task.splits)

lemma sys_exec_videos_mono:
  "sys_exec key parse s e = Some s' \<Longrightarrow> set (videos (app s)) \<subseteq> set (videos (app s'))"
  using sys_exec_videos by fastforce

lemma sys_reach_selected:
  "sys_reach key parse now s \<Longrightarrow> selected_video (app s) = Some v \<Longrightarrow> v \<in> set (videos (app s))"
proof (induction arbitrary: v rule: sys_reach.induct)
  case init
  then show ?case by (simp add: initial_sys_def initial_app_def)
next
  case (step s e s')
  from sys_exec_selected [OF step.hyps(2)] step.prems step.IH sys_exec_videos_mono [OF step.hyps(2)]
  show ?case by auto
qed

lemma js_truthy_blob_url: "js_truthy (blob_url n)"
  by (simp add: blob_url_def js_truthy_def)

lemma sys_exec_form_coupled:
  "sys_exec key parse s e = Some s' \<Longrightarrow> form_coupled (modal s) \<Longrightarrow> form_coupled (modal s')"
  by (cases e) (auto simp: form_coupled_def handler_defs set_app_def Let_def js_truthy_blob_url
      split: if_splits main_view.splits option.splits prod.splits modal_task.splits sum.splits)

lemma sys_reach_form_coupled: "sys_reach key parse now s \<Longrightarrow> form_coupled (modal s)"
proof (induction rule: sys_reach.induct)
  case init
  then show ?case by (simp add: initial_sys_def initial_modal_def form_coupled_def)
next
  case (step s e s')
  show ?case by (rule sys_exec_form_coupled [OF step.hyps(2) step.IH])
qed

lemma sys_exec_generation_pending:
  assumes ex: "sys_exec key parse s e = Some s'" and inv: "generation_pending s"
  shows "generation_pending s'"
proof (cases e)
  case (Extraction_settles i c h es)
  with ex obtain f r where ti: "js_index (tasks s) i = Some (Extract_frame f)"
    and s': "s' = s\<lparr>modal := extract_done r (modal s), tasks := remove_nth i (tasks s)\<rparr>"
    by (auto split: option.splits modal_task.splits)
  from ti have "tasks s ! i = Extract_frame f" by (auto dest: js_index_Some_nth)
  then show ?thesis
    using inv s' in_set_remove_nth_other [of "Generate _" "tasks s" i]
    by (auto simp: generation_pending_def extract_done_def split: sum.splits)
qed (use ex inv in \<open>auto simp: generation_pending_def handler_defs set_app_def Let_def
      split: if_splits option.splits prod.splits modal_task.splits sum.splits main_view.splits\<close>)

lemma sys_exec_closed_form_empty:
  "sys_exec key parse s e = Some s' \<Longrightarrow> closed_form_empty s \<Longrightarrow> closed_form_empty s'"
  by (cases e) (auto simp: closed_form_empty_def modal_open_def form_shown_def handler_defs
      set_app_def Let_def split: if_splits main_view.splits option.splits prod.splits
      modal_task.splits sum.splits)

lemma sys_reach_closed_form_empty:
  "sys_reach key parse now s \<Longrightarrow> \<not> modal_open s \<Longrightarrow> chosen_file (modal s) = None"
proof (induction rule: sys_reach.induct)
  case init
  then show ?case by (simp add: initial_sys_def initial_modal_def)
next
  case (step s e s')
  from step.IH have "closed_form_empty s" by (simp add: closed_form_empty_def)
  from sys_exec_closed_form_empty [OF step.hyps(2) this] step.prems show ?case
    by (simp add: closed_form_empty_def)
qed

lemma capture_settlement_resolved_truthy:
  assumes "capture_settlement ctx_ok h m es = Some (Inr d)"
  shows "js_truthy d"
proof -
  from assms obtain st where run: "capture_run (extract_frame_from_video ctx_ok h m) es = Some st"
    and out: "outcome st = Resolved d"
    by (auto simp: capture_settlement_def split: option.splits promise.splits)
  from capture_resolved_frame [OF capture_run_start_reach [OF run] out] obtain p
    where "d = to_data_url (fc_canvas st) ''image/jpeg'' p" by blast
  then show ?thesis by (simp add: to_data_url_def js_truthy_def)
qed

lemma blob_url_inj: "blob_url m = blob_url n \<Longrightarrow> m = n"
  by (simp add: blob_url_def js_nat_string_inj)

lemma sys_exec_url_cases:
  "sys_exec key parse s e = Some s' \<Longrightarrow>
   (videos (app s') = videos (app s) \<and>
     (next_blob s' = next_blob s \<and>
        (preview_url (modal s') = preview_url (modal s) \<or> preview_url (modal s') = None) \<or>
      next_blob s' = Suc (next_blob s) \<and> preview_url (modal s') = Some (blob_url (next_blob s)))) \<or>
   (\<exists>v. videos (app s') = v # videos (app s) \<and> preview_url (modal s) = Some (url v) \<and>
      preview_url (modal s') = None \<and> next_blob s' = next_blob s)"
  by (cases e) (auto simp: handler_defs set_app_def Let_def
      split: if_splits main_view.splits option.splits prod.splits modal_task.splits sum.splits)

lemma sys_exec_upload_urls_fresh:
  assumes ex: "sys_exec key parse s e = Some s'" and inv: "upload_urls_fresh now s"
  shows "upload_urls_fresh now s'"
proof -
  from inv obtain ups ks where vs: "videos (app s) = ups @ mock_videos now"
    and us: "map url ups = map blob_url ks" and srt: "sorted_wrt (>) ks"
    and lt: "\<forall>k \<in> set ks. k < next_blob s"
    and pv: "\<forall>u. preview_url (modal s) = Some u \<longrightarrow>
               (\<exists>k. u = blob_url k \<and> k < next_blob s \<and> (\<forall>k' \<in> set ks. k' < k))"
    unfolding upload_urls_fresh_def by blast
  from sys_exec_url_cases [OF ex] show ?thesis
  proof (elim disjE conjE exE)
    assume "videos (app s') = videos (app s)" "next_blob s' = next_blob s"
      "preview_url (modal s') = preview_url (modal s)"
    with vs us srt lt pv show ?thesis unfolding upload_urls_fresh_def by metis
  next
    assume "videos (app s') = videos (app s)" "next_blob s' = next_blob s"
      "preview_url (modal s') = None"
    with vs us srt lt show ?thesis unfolding upload_urls_fresh_def by auto
  next
    assume a: "videos (app s') = videos (app s)" "next_blob s' = Suc (next_blob s)"
      "preview_url (modal s') = Some (blob_url (next_blob s))"
    have "\<forall>k \<in> set ks. k < next_blob s'" using lt a(2) by auto
    moreover have "\<forall>k' \<in> set ks. k' < next_blob s" using lt .
    ultimately show ?thesis using a vs us srt unfolding upload_urls_fresh_def
      by (intro exI [of _ ups] exI [of _ ks]) auto
  next
    fix v
    assume a: "videos (app s') = v # videos (app s)" "preview_url (modal s) = Some (url v)"
      "preview_url (modal s') = None" "next_blob s' = next_blob s"
    from pv a(2) obtain k where k: "url v = blob_url k" "k < next_blob s" "\<forall>k' \<in> set ks. k' < k"
      by blast
    show ?thesis unfolding upload_urls_fresh_def
      using a vs us srt lt k by (intro exI [of _ "v # ups"] exI [of _ "k # ks"]) auto
  qed
qed

lemma sys_reach_upload_urls_fresh: "sys_reach key parse now s \<Longrightarrow> upload_urls_fresh now s"
proof (induction rule: sys_reach.induct)
  case init
  then show ?case
    by (simp add: upload_urls_fresh_def initial_sys_def initial_app_def initial_modal_def)
next
  case (step s e s')
  show ?case by (rule sys_exec_upload_urls_fresh [OF step.hyps(2) step.IH])
qed

text \<open>The definitions a concrete run unfolds, for evaluating runs by \<open>simp\<close>.\<close>

lemmas sys_eval = initial_sys_def initial_app_def initial_modal_def handler_defs Let_def
  modal_open_def form_shown_def set_app_def capture_settlement_def to_data_url_def
  blob_url_def js_nat_string.simps is_base64_def base64_alphabet_def remove_nth_def
  opt_truthy_def js_truthy_def js_or_def new_video_def cleanBase64_def fallback_metadata_def
  join_tags_def parse_tags_def placeholder_thumbnail_def js_trim_def is_js_space_def

end
