(* ===== verification/Spec2Isabelle.thy ===== *)
theory Spec2Isabelle
  imports Js_String Types Video_Utils Capture_Spec Video_Card Gemini_Service Upload_Modal Constants App System
begin

text \<open>
  \<^bold>\<open>A verification model of the video-library dashboard.\<close>

  \<^emph>\<open>The program.\<close> A single-page React application (\<^verbatim>\<open>src/\<close>). The root
  component \<^verbatim>\<open>App\<close> (\<^verbatim>\<open>src/App.tsx\<close>) keeps the library of videos, starting
  from the sample data of \<^verbatim>\<open>src/constants.ts\<close>, the selected video, the active tab
  and whether the upload dialog is open, and renders a player with an Up Next list, a
  grid of \<^verbatim>\<open>VideoCard\<close>s or an analytics panel. The dialog \<^verbatim>\<open>UploadModal\<close>
  (\<^verbatim>\<open>src/components/UploadModal.tsx\<close>) keeps its own form state; choosing a file
  starts \<^verbatim>\<open>extractFrameFromVideo\<close> (\<^verbatim>\<open>src/utils/videoUtils.ts\<close>), which grabs
  the frame at one second through a hidden video element and a canvas; the AI button
  strips the data-URL prefix with \<^verbatim>\<open>cleanBase64\<close> and awaits
  \<^verbatim>\<open>generateVideoMetadata\<close> (\<^verbatim>\<open>src/services/geminiService.ts\<close>); publishing
  hands a new \<^verbatim>\<open>Video\<close> (\<^verbatim>\<open>src/types.ts\<close>) to \<^verbatim>\<open>App\<close>'s
  \<^verbatim>\<open>handleUpload\<close> and closes the dialog. Components interact by callbacks
  (\<^verbatim>\<open>onUpload\<close>, \<^verbatim>\<open>onClose\<close>, \<^verbatim>\<open>onClick\<close>) and by promises that settle
  later on the single-threaded event loop.

  \<^emph>\<open>The theories.\<close>
  \<^item> \<open>Prelude\<close>: names of the basic types, the JavaScript promise with settle-once
    semantics (\<open>js_resolve\<close>, \<open>js_reject\<close>), removal of a pending continuation.
  \<^item> \<open>Js_String\<close>: the built-ins the code calls (\<^verbatim>\<open>split\<close>, indexing with
    \<^verbatim>\<open>undefined\<close>, \<^verbatim>\<open>trim\<close>, \<^verbatim>\<open>join\<close>, truthiness, \<^verbatim>\<open>||\<close>), with the
    split/join round trip.
  \<^item> \<open>Types\<close>: the three interfaces of \<^verbatim>\<open>types.ts\<close> as records.
  \<^item> \<open>Video_Utils\<close>: \<^verbatim>\<open>extractFrameFromVideo\<close> as the record \<open>frame_capture\<close>
    of its local state, the start function \<open>extract_frame_from_video\<close> and one
    function per callback (\<open>on_loadedmetadata\<close>, \<open>on_seeked\<close>, \<open>on_error\<close>); the
    browser's freedom to fire callbacks is the step relation \<open>capture_reach\<close> over
    \<open>media_event_enabled\<close>; \<open>cleanBase64\<close>. Claims C1 to C9.
  \<^item> \<open>Capture_Spec\<close>: the specification's contract of the frame capture as an
    event system: the labelled step relation \<open>capture_spec_step\<close> over
    \<open>capture_phase\<close> (awaiting metadata, seeking, one delivered frame, failed with
    \<open>SourceUnreadable\<close> or \<open>CaptureFailed\<close>), the event mapping
    \<open>spec_event_of\<close> from the element's callbacks and the refinement mapping
    \<open>capture_abs\<close>. Claim C25.
  \<^item> \<open>Video_Card\<close>: what a \<^verbatim>\<open>VideoCard\<close> renders of a video (\<open>video_card\<close>)
    and an Up Next entry beside the player (\<open>up_next_item\<close>, \<^verbatim>\<open>App.tsx\<close>), with
    \<^verbatim>\<open>toLocaleString\<close> for the en-US locale and \<^verbatim>\<open>String(n)\<close>. Claim C26.
  \<^item> \<open>Gemini_Service\<close>: \<open>get_ai_client\<close>, the request \<open>metadata_request\<close>,
    \<open>generate_video_metadata\<close> with the remote model and \<^verbatim>\<open>JSON.parse\<close> as
    parameters, errors as \<open>Inl\<close>. Claims C10 to C12.
  \<^item> \<open>Upload_Modal\<close>: \<open>modal_state\<close>, each handler split at its \<^verbatim>\<open>await\<close>
    into a synchronous function returning the started continuations
    (\<open>handle_file_change\<close>, \<open>handle_generate_metadata\<close>) and the continuation
    (\<open>extract_done\<close>, \<open>generate_done\<close>); \<open>handle_submit\<close>, \<open>handle_close\<close>,
    the tag parser \<open>parse_tags\<close>. Claims C13 to C15.
  \<^item> \<open>Constants\<close>: \<open>mock_videos\<close> (with \<^verbatim>\<open>Date.now()\<close> as a parameter) and
    \<open>mock_analytics\<close>.
  \<^item> \<open>App\<close>: \<open>app_state\<close>, one function per handler, \<open>up_next\<close> and
    \<open>main_view\<close> (what the main area shows).
  \<^item> \<open>System\<close>: the composition. \<open>sys_exec\<close> runs one event of the event loop
    on the state of both components plus the pending continuations: a click or key
    press the rendered page accepts (none reach \<^verbatim>\<open>App\<close> while the modal's overlay
    is up), or the settlement of any pending continuation, the capture's settlement
    being computed by running the \<open>Video_Utils\<close> machine
    (\<open>capture_settlement\<close>) and the generation's by \<open>generate_video_metadata\<close>.
    \<open>sys_reach\<close> is the set of reachable states; the invariants of the
    composition are proved there by rule induction, one lemma per event group.
  \<^item> This theory: the claims that span components, C16 to C24.

  \<^emph>\<open>What the lemmas show.\<close> Frame capture: a resolved capture is the full-size
  JPEG of the frame at one second (C1, C3); revocation of the object URL is counted
  exactly (C2), it leaks when drawing fails (C4) and happens twice when an error
  follows a delivered frame; a missing context rejects at once (C5). \<open>cleanBase64\<close>:
  its exact meaning (C6), the round trip on data URLs (C7), \<^verbatim>\<open>undefined\<close> rather
  than an error without a comma (C8), and the payload of a capture (C9). Service: a
  missing key is the one error that escapes (C10), every other failure yields the
  fallback (C11), a parsed answer is returned as is (C12). Form: tags round-trip (C13),
  publication (C14) and its guard (C15). The running application: the player only
  shows videos of the library with an Up Next list of the others (C16), the library
  is the uploads before the samples (C17), the spinner implies an outstanding request
  (C18), publishing always succeeds while the form is shown (C19); from every
  reachable state with the dialog closed, a cancelled upload's frame (C20) or its
  generated metadata (C21) is published with the next upload, for all files and
  answers, because the always-mounted modal's continuations write its state after
  close; the service's failure and a missing key as the user sees them (C22, C23);
  published uploads have distinct URLs (C24, through the decimal print/parse round
  trip of \<open>js_nat_string\<close>). Refinement: every callback the element can fire from
  a reachable state is the contract's step for its event under \<open>capture_abs\<close>, and
  settled captures ignore later callbacks (C25). Display: the card groups its counts
  with commas exactly from four digits on, where the Up Next entry prints the raw
  number (C26).

  \<^emph>\<open>Mutants.\<close> The theories under \<^verbatim>\<open>mutants/\<close> each change one definition the way
  a plausible bug would (no canvas sizing, a dropped revocation in \<^verbatim>\<open>onerror\<close> or
  \<^verbatim>\<open>onseeked\<close>, \<^verbatim>\<open>onerror\<close> resolving, index 0 in \<open>cleanBase64\<close>, an empty key
  accepted, tags not trimmed, uploads appended); the claim named for each (C1, C2,
  C3, C25, C6, C10, C13, C17) does not prove against it.

  \<^emph>\<open>Bounds and fuel.\<close> No loop of the program is unbounded: every recursion of the
  model is structural (\<open>js_split\<close>, \<open>capture_run\<close>, \<open>sys_run\<close>) or decreases a
  number (\<open>js_nat_string\<close>). The capture's promise has no timeout: a run of
  callbacks that never settles it is simply a run after which it is still
  \<open>Pending\<close>. JavaScript numbers that occur are counts, pixel sizes and timestamps
  and are \<open>int\<close>, \<open>nat\<close> or \<open>rat\<close>; none is near a limit where a width matters.

  \<^emph>\<open>Plan for further work.\<close> (1) A contract for the whole modal in the style of
  \<open>Capture_Spec\<close>. (2) The accounting of the
  preview object URLs over the whole run (created on each file choice, never revoked).
  (3) The analytics panel's literal figures against the sample data.

  \<^emph>\<open>Not modelled.\<close> Markup and styling; \<^verbatim>\<open>AnalyticsChart\<close> (rendering through
  recharts); the date text of \<^verbatim>\<open>toLocaleDateString\<close> (the card keeps the
  timestamp); locales other than en-US; the \<^verbatim>\<open>Button\<close> component, imported but absent from the
  repository, so a click on the AI button is possible while it shows its spinner; the
  remote model's behaviour and \<^verbatim>\<open>JSON.parse\<close> (parameters: any answer, any
  parser returning a well-typed \<^verbatim>\<open>VideoMetadata\<close> or a syntax error; a parsed value
  of another shape, which the \<^verbatim>\<open>as\<close> cast lets through to the alert path of
  \<^verbatim>\<open>handleGenerateMetadata\<close>, is not represented); the bytes of the JPEG encoding (the \<open>Draw_ok\<close> payload is any base64
  text); \<^verbatim>\<open>console.error\<close>; the random id of a new video (a parameter of
  \<open>Click_publish\<close>); characters beyond one byte.
\<close>

section \<open>Sample inputs\<close>

definition sample_file_a :: js_file where
  "sample_file_a = \<lparr>file_name = ''a.mp4'', file_media = clip_640x360\<rparr>"

definition sample_file_b :: js_file where
  "sample_file_b = \<lparr>file_name = ''b.mp4'', file_media = clip_640x360\<rparr>"

text \<open>A run that opens the dialog, picks file A, gets its frame and asks for metadata.\<close>

definition generating_run :: "sys_event list" where
  "generating_run =
     [Click_upload, Choose_file (Some sample_file_a),
      Extraction_settles 0 True 5 [Loaded_metadata, Seeked (Draw_ok ''QUFB'')], Click_generate]"

lemmas sample_eval = sys_eval sample_file_a_def sample_file_b_def clip_640x360_def generating_run_def

section \<open>Properties of the running application\<close>

text \<open>
  C16. In every reachable state, the video the player shows is one of the library's,
  and its Up Next list holds exactly the library's videos with a different id.
\<close>

theorem player_view_up_next:
  assumes "sys_reach key parse now s" and "main_view (app s) = Player_view v vs"
  shows "v \<in> set (videos (app s)) \<and> set vs = {w \<in> set (videos (app s)). video_id w \<noteq> video_id v}"
proof -
  from main_view_Player_view [OF assms(2)]
  have sel: "selected_video (app s) = Some v" and vs: "vs = up_next v (videos (app s))" by auto
  from sys_reach_selected [OF assms(1) sel] vs show ?thesis by (simp add: set_up_next)
qed

lemma player_view_up_next_witness:
  "hd (mock_videos 0) \<in> set (mock_videos 0) \<and>
   set (up_next (hd (mock_videos 0)) (mock_videos 0)) =
     {w \<in> set (mock_videos 0). video_id w \<noteq> video_id (hd (mock_videos 0))}"
proof -
  let ?s = "initial_sys 0\<lparr>app := handle_video_click (hd (mock_videos 0)) (app (initial_sys 0))\<rparr>"
  have run: "sys_run None (\<lambda>_. None) (initial_sys 0) [Click_card (hd (mock_videos 0))] = Some ?s"
    by (simp add: sample_eval main_view_def mock_videos_def)
  have "main_view (app ?s) = Player_view (hd (mock_videos 0)) (up_next (hd (mock_videos 0)) (mock_videos 0))"
    by (simp add: main_view_def handle_video_click_def initial_sys_def initial_app_def)
  from player_view_up_next [OF sys_run_initial_reach [OF run] this] show ?thesis
    by (simp add: handle_video_click_def initial_sys_def initial_app_def)
qed

text \<open>
  C17. In every reachable state the library is the videos published through the form,
  newest first, followed by the three sample videos; every published video has author
  \<open>You\<close>, no views, no likes and well-formed tags. In particular no video is ever
  removed and the samples are never reordered.
\<close>

theorem library_shape:
  "sys_reach key parse now s \<Longrightarrow>
   \<exists>ups. videos (app s) = ups @ mock_videos now \<and> list_all upload_shape ups"
proof (induction rule: sys_reach.induct)
  case init
  then show ?case by (auto simp: initial_sys_def initial_app_def)
next
  case (step s e s')
  then obtain ups where ups: "videos (app s) = ups @ mock_videos now" "list_all upload_shape ups"
    by blast
  from sys_exec_videos [OF step.hyps(2)] show ?case
  proof
    assume "videos (app s') = videos (app s)"
    with ups show ?thesis by auto
  next
    assume "\<exists>vid t m v. handle_submit vid t (modal s) = (m, Some v) \<and>
              videos (app s') = v # videos (app s)"
    then obtain vid t m v where sub: "handle_submit vid t (modal s) = (m, Some v)"
      and vs: "videos (app s') = v # videos (app s)" by blast
    from handle_submit_Some [OF sub] new_video_upload_shape have "upload_shape v"
      by (auto simp: upload_shape_def)
    with ups vs show ?thesis by (intro exI [of _ "v # ups"]) simp
  qed
qed

lemma library_shape_witness:
  "\<exists>ups. videos (app (initial_sys 0)) = ups @ mock_videos 0 \<and> list_all upload_shape ups"
  using library_shape [OF sys_reach.init [of None "\<lambda>_. None" 0]] .

text \<open>
  C18. In every reachable state, while the form shows the generating spinner
  (\<^verbatim>\<open>isGenerating\<close>) a call of the metadata service is outstanding; its settlement
  clears the flag, so the spinner is never left on with nothing to wait for. Closing
  the dialog does not clear the flag; the outstanding call does when it settles.
\<close>

theorem generating_pending:
  "sys_reach key parse now s \<Longrightarrow> is_generating (modal s) \<Longrightarrow> \<exists>d. Generate d \<in> set (tasks s)"
proof (induction rule: sys_reach.induct)
  case init
  then show ?case by (simp add: initial_sys_def initial_modal_def)
next
  case (step s e s')
  have "generation_pending s"
    using step.IH by (simp add: generation_pending_def)
  with sys_exec_generation_pending [OF step.hyps(2)] step.prems show ?case
    by (simp add: generation_pending_def)
qed

lemma generating_pending_witness:
  "\<exists>d. Generate d \<in> set (tasks (the (sys_run None (\<lambda>_. None) (initial_sys 0) generating_run)))"
proof -
  let ?s = "the (sys_run None (\<lambda>_. None) (initial_sys 0) generating_run)"
  have run: "sys_run None (\<lambda>_. None) (initial_sys 0) generating_run = Some ?s"
    by (simp add: sample_eval)
  have "is_generating (modal ?s)"
    by (simp add: sample_eval)
  with generating_pending [OF sys_run_initial_reach [OF run]] show ?thesis .
qed

text \<open>
  C19. In every reachable state where the form is shown, publishing succeeds: the
  new video, whose URL is the file's preview URL, is put first in the library, the
  dialog closes and the form is back in its initial state except for
  \<^verbatim>\<open>isGenerating\<close>.
\<close>

theorem publish_succeeds:
  assumes "sys_reach key parse now s" and "form_shown s"
  shows "\<exists>s' v. sys_exec key parse s (Click_publish vid t) = Some s' \<and>
     videos (app s') = v # videos (app s) \<and> \<not> modal_open s' \<and>
     preview_url (modal s) = Some (url v) \<and>
     modal s' = initial_modal\<lparr>is_generating := is_generating (modal s)\<rparr>"
proof -
  from assms(2) obtain f where f: "chosen_file (modal s) = Some f"
    by (auto simp: form_shown_def)
  with sys_reach_form_coupled [OF assms(1)] obtain u where
    u: "preview_url (modal s) = Some u" "js_truthy u"
    by (cases "preview_url (modal s)") (auto simp: form_coupled_def)
  have "handle_submit vid t (modal s) =
        (handle_close (modal s), Some (new_video vid t f u (modal s)))"
    using f u by (simp add: handle_submit_def)
  with assms(2) u show ?thesis
    by (simp add: handle_close_initial handle_upload_def close_upload_modal_def
        modal_open_def new_video_def)
qed

lemma publish_succeeds_witness:
  "sys_exec None (\<lambda>_. None)
     (the (sys_run None (\<lambda>_. None) (initial_sys 0) [Click_upload, Choose_file (Some sample_file_a)]))
     (Click_publish ''x'' 1) \<noteq> None"
proof -
  let ?s = "the (sys_run None (\<lambda>_. None) (initial_sys 0) [Click_upload, Choose_file (Some sample_file_a)])"
  have run: "sys_run None (\<lambda>_. None) (initial_sys 0) [Click_upload, Choose_file (Some sample_file_a)] = Some ?s"
    by (simp add: sample_eval)
  have "form_shown ?s" by (simp add: sample_eval)
  from publish_succeeds [OF sys_run_initial_reach [OF run] this, of "''x''" 1]
  obtain s' where "sys_exec None (\<lambda>_. None) ?s (Click_publish ''x'' 1) = Some s'" by blast
  then show ?thesis by (metis not_None_eq)
qed

text \<open>
  C20. A cancelled upload's frame is published with the next upload, from every
  reachable state with the dialog closed and for all files: the user picks file
  \<open>a\<close> and cancels before its frame is ready; the frame arrives while the dialog is
  closed and \<^verbatim>\<open>setThumbnailBase64\<close> stores it in the still-mounted modal. The
  user then picks file \<open>b\<close>, whose capture fails, and publishes: \<open>b\<close>'s video
  (its URL is \<open>b\<close>'s preview URL) carries \<open>a\<close>'s frame as its thumbnail instead
  of the placeholder. The run is possible from every such state because a closed
  dialog never holds a file.
\<close>

theorem stale_thumbnail_published:
  assumes "sys_reach key parse now s" and "\<not> modal_open s"
    and "capture_settlement True h (file_media a) es = Some (Inr frame)"
    and "capture_settlement True h' (file_media b) es' = Some (Inl err)"
  shows "\<exists>s' v. sys_run key parse s
     [Click_upload, Choose_file (Some a), Click_cancel,
      Extraction_settles (length (tasks s)) True h es,
      Click_upload, Choose_file (Some b), Extraction_settles (length (tasks s)) True h' es',
      Click_publish vid t] = Some s' \<and>
     videos (app s') = v # videos (app s) \<and> url v = blob_url (Suc (next_blob s)) \<and>
     thumbnailUrl v = frame"
proof -
  have nf: "chosen_file (modal s) = None"
    using sys_reach_closed_form_empty [OF assms(1,2)] .
  have tr: "js_truthy frame" using capture_settlement_resolved_truthy [OF assms(3)] .
  show ?thesis
    using assms(2-4) nf tr
    by (simp add: modal_open_def form_shown_def set_app_def handler_defs Let_def
        opt_truthy_def js_truthy_blob_url new_video_def)
qed


lemma stale_thumbnail_published_witness:
  "\<exists>s' v. sys_run None (\<lambda>_. None) (initial_sys 0)
     [Click_upload, Choose_file (Some sample_file_a), Click_cancel,
      Extraction_settles 0 True 5 [Loaded_metadata, Seeked (Draw_ok ''QUFB'')],
      Click_upload, Choose_file (Some sample_file_b), Extraction_settles 0 True 6 [Media_error],
      Click_publish ''x'' 1] = Some s' \<and>
     videos (app s') = v # mock_videos 0 \<and> url v = ''blob:1'' \<and>
     thumbnailUrl v = ''data:image/jpeg;base64,QUFB''"
proof -
  have a: "capture_settlement True 5 (file_media sample_file_a) [Loaded_metadata, Seeked (Draw_ok ''QUFB'')] =
      Some (Inr ''data:image/jpeg;base64,QUFB'')"
    by (simp add: sample_eval)
  have b: "capture_settlement True 6 (file_media sample_file_b) [Media_error] = Some (Inl Video_load_error)"
    by (simp add: sample_eval)
  have c: "\<not> modal_open (initial_sys 0)" by (simp add: sample_eval)
  from stale_thumbnail_published [OF sys_reach.init c a b, where vid = "''x''" and t = 1]
  show ?thesis by (simp add: initial_sys_def initial_app_def blob_url_def js_nat_string.simps)
qed

text \<open>
  C21. A cancelled upload's generated metadata is published with the next upload,
  from every reachable state with the dialog closed, for all files, any API key and
  any answer of the service: the user picks file \<open>a\<close>, asks for metadata once its
  frame is ready, and cancels; the answer (the parsed object, or the fallback after a
  failure) arrives while the dialog is closed and fills the still-mounted form. The
  user then picks file \<open>b\<close> and publishes at once: \<open>b\<close>'s video carries the
  title, description and tags generated for \<open>a\<close>'s frame.
\<close>

theorem stale_metadata_published:
  assumes "sys_reach (Some k) parse now s" and "\<not> modal_open s" and "js_truthy k"
    and "capture_settlement True h (file_media a) es = Some (Inr frame)"
  shows "\<exists>s' v. sys_run (Some k) parse s
     [Click_upload, Choose_file (Some a), Extraction_settles (length (tasks s)) True h es,
      Click_generate, Click_cancel, Generation_settles (length (tasks s)) r,
      Click_upload, Choose_file (Some b), Click_publish vid t] = Some s' \<and>
     videos (app s') = v # videos (app s) \<and> url v = blob_url (Suc (next_blob s)) \<and>
     title (metadata v) = js_or (title (interpret_response parse r)) (file_name b) \<and>
     description (metadata v) =
       js_or (description (interpret_response parse r)) ''No description provided.'' \<and>
     tags (metadata v) = parse_tags (join_tags (tags (interpret_response parse r)))"
proof -
  have nf: "chosen_file (modal s) = None"
    using sys_reach_closed_form_empty [OF assms(1,2)] .
  have tr: "js_truthy frame" using capture_settlement_resolved_truthy [OF assms(4)] .
  show ?thesis
    using assms(2-4) nf tr
    by (simp add: modal_open_def form_shown_def set_app_def handler_defs Let_def
        opt_truthy_def js_truthy_blob_url new_video_def)
qed

lemma stale_metadata_published_witness:
  "\<exists>s' v. sys_run (Some ''key'') (\<lambda>_. None) (initial_sys 0)
     [Click_upload, Choose_file (Some sample_file_a),
      Extraction_settles 0 True 5 [Loaded_metadata, Seeked (Draw_ok ''QUFB'')],
      Click_generate, Click_cancel, Generation_settles 0 Ai_throws,
      Click_upload, Choose_file (Some sample_file_b), Click_publish ''x'' 1] = Some s' \<and>
     videos (app s') = v # mock_videos 0 \<and> url v = ''blob:1'' \<and>
     title (metadata v) = ''Uploaded Video'' \<and> description (metadata v) = ''No description generated.'' \<and>
     tags (metadata v) = [''video'', ''upload'']"
proof -
  have a: "capture_settlement True 5 (file_media sample_file_a) [Loaded_metadata, Seeked (Draw_ok ''QUFB'')] =
      Some (Inr ''data:image/jpeg;base64,QUFB'')"
    by (simp add: sample_eval)
  have c: "\<not> modal_open (initial_sys 0)" by (simp add: sample_eval)
  have k: "js_truthy ''key''" by (simp add: js_truthy_def)
  from stale_metadata_published [OF sys_reach.init c k a, where r = Ai_throws and b = sample_file_b and vid = "''x''" and t = 1]
  show ?thesis
    by (simp add: sample_eval interpret_response_def)
qed

text \<open>
  C22. When the metadata service is unreachable (or answers with no text, empty
  text or text that is not JSON) and a key is configured, the settlement of the
  pending request fills the form with the fallback object verbatim (title
  \<open>Uploaded Video\<close>, description \<open>No description generated.\<close>, tags field
  \<open>video, upload\<close>), clears the spinner and shows no alert.
\<close>

theorem service_failure_fills_fallback:
  assumes "js_truthy k" and "js_index (tasks s) i = Some (Generate d)"
    and "failed_response parse resp"
  shows "\<exists>s'. sys_exec (Some k) parse s (Generation_settles i resp) = Some s' \<and>
     title_input (modal s') = ''Uploaded Video'' \<and>
     description_input (modal s') = ''No description generated.'' \<and>
     tags_input (modal s') = ''video, upload'' \<and>
     alerts s' = alerts s \<and> \<not> is_generating (modal s')"
proof -
  have "generate_video_metadata (Some k) (\<lambda>_ _. resp) parse d = Inr fallback_metadata"
    using assms(1,3) interpret_failed by (simp add: generate_video_metadata_def get_ai_client_def)
  with assms(2) show ?thesis
    by (simp add: generate_done_def fallback_metadata_def join_tags_def)
qed

lemma service_failure_fills_fallback_witness:
  "title_input (modal (the (sys_exec (Some ''key'') (\<lambda>_. None)
      (the (sys_run (Some ''key'') (\<lambda>_. None) (initial_sys 0) generating_run))
      (Generation_settles 0 Ai_throws)))) = ''Uploaded Video''"
proof -
  let ?s = "the (sys_run (Some ''key'') (\<lambda>_. None) (initial_sys 0) generating_run)"
  have k: "js_truthy ''key''" by (simp add: js_truthy_def)
  have t: "js_index (tasks ?s) 0 = Some (Generate (Some ''QUFB''))"
    by (simp add: sample_eval)
  have f: "failed_response (\<lambda>_. None) Ai_throws" by (simp add: failed_response_def)
  from service_failure_fills_fallback [OF k t f] show ?thesis by auto
qed

text \<open>
  C23. Without an API key the service call throws before its \<^verbatim>\<open>try\<close>; the
  settlement of the pending request shows the alert
  \<open>Failed to generate metadata. Check your API key.\<close>, clears the spinner and leaves
  the title, description and tags fields as they were.
\<close>

theorem missing_key_alerts:
  assumes "key = None \<or> key = Some []" and "js_index (tasks s) i = Some (Generate d)"
  shows "\<exists>s'. sys_exec key parse s (Generation_settles i resp) = Some s' \<and>
     alerts s' = alerts s @ [generate_alert] \<and>
     title_input (modal s') = title_input (modal s) \<and>
     description_input (modal s') = description_input (modal s) \<and>
     tags_input (modal s') = tags_input (modal s) \<and> \<not> is_generating (modal s')"
proof -
  have "generate_video_metadata key (\<lambda>_ _. resp) parse d = Inl Api_key_missing"
    using assms(1) by (auto simp: generate_video_metadata_def get_ai_client_def js_truthy_def)
  with assms(2) show ?thesis by (simp add: generate_done_def)
qed

lemma missing_key_alerts_witness:
  "alerts (the (sys_exec None (\<lambda>_. None)
      (the (sys_run None (\<lambda>_. None) (initial_sys 0) generating_run))
      (Generation_settles 0 Ai_throws))) = [generate_alert]"
proof -
  let ?s = "the (sys_run None (\<lambda>_. None) (initial_sys 0) generating_run)"
  have k: "(None :: js_string option) = None \<or> None = Some []" by simp
  have t: "js_index (tasks ?s) 0 = Some (Generate (Some ''QUFB''))"
    by (simp add: sample_eval)
  have a: "alerts ?s = []" by (simp add: sample_eval)
  from missing_key_alerts [OF k t, of "\<lambda>_. None" Ai_throws] a show ?thesis by auto
qed

text \<open>
  C24. In every reachable state the videos published through the form have pairwise
  distinct URLs: each upload plays its own file, since every file choice takes a fresh
  object URL and publication consumes the current one.
\<close>

theorem upload_urls_distinct:
  assumes "sys_reach key parse now s"
  shows "\<exists>ups. videos (app s) = ups @ mock_videos now \<and> distinct (map url ups)"
proof -
  from sys_reach_upload_urls_fresh [OF assms] obtain ups ks where
    vs: "videos (app s) = ups @ mock_videos now" and us: "map url ups = map blob_url ks"
    and srt: "sorted_wrt (>) ks"
    unfolding upload_urls_fresh_def by blast
  from srt have "distinct ks"
    by (induction ks) (auto simp: order_less_irrefl)
  moreover have "inj_on blob_url (set ks)" by (auto intro: inj_onI blob_url_inj)
  ultimately have "distinct (map blob_url ks)" by (simp add: distinct_map)
  with vs us show ?thesis by (intro exI [of _ ups]) simp
qed

lemma upload_urls_distinct_witness:
  "\<exists>ups. videos (app (the (sys_run None (\<lambda>_. None) (initial_sys 0)
      [Click_upload, Choose_file (Some sample_file_a), Click_publish ''a'' 1,
       Click_upload, Choose_file (Some sample_file_b), Click_publish ''b'' 2]))) = ups @ mock_videos 0 \<and>
     distinct (map url ups)"
proof -
  let ?es = "[Click_upload, Choose_file (Some sample_file_a), Click_publish ''a'' 1,
       Click_upload, Choose_file (Some sample_file_b), Click_publish ''b'' 2]"
  let ?s = "the (sys_run None (\<lambda>_. None) (initial_sys 0) ?es)"
  have run: "sys_run None (\<lambda>_. None) (initial_sys 0) ?es = Some ?s"
    by (simp add: sample_eval)
  show ?thesis by (rule upload_urls_distinct [OF sys_run_initial_reach [OF run]])
qed

end
